theory Spec2Isabelle
  imports Main "HOL-Library.List_Lexorder" "HOL-Library.Char_ord"
begin

section \<open>Strings of the generator\<close>

text \<open>
  A JavaScript string is modelled as a \<^typ>\<open>string\<close>: a list of code units, each below 256.
  Case conversion is modelled on the ASCII letters, and the model leaves every other
  character as it is; the runtime also converts the letters outside ASCII, so the names of
  tables and models that the model speaks for are those whose first character is in ASCII.
  Values that may be \<^verbatim>\<open>null\<close> or \<^verbatim>\<open>undefined\<close> are options.
\<close>

definition lower_letters :: string where
  "lower_letters = ''abcdefghijklmnopqrstuvwxyz''"

definition upper_letters :: string where
  "upper_letters = ''ABCDEFGHIJKLMNOPQRSTUVWXYZ''"

text \<open>The character class \<^verbatim>\<open>[a-zA-Z]\<close>.\<close>

definition is_letter :: "char \<Rightarrow> bool" where
  "is_letter c = (c \<in> set lower_letters \<or> c \<in> set upper_letters)"

definition toUpperCase_char :: "char \<Rightarrow> char" where
  "toUpperCase_char c = (case map_of (zip lower_letters upper_letters) c of Some u \<Rightarrow> u | None \<Rightarrow> c)"

definition toLowerCase_char :: "char \<Rightarrow> char" where
  "toLowerCase_char c = (case map_of (zip upper_letters lower_letters) c of Some l \<Rightarrow> l | None \<Rightarrow> c)"

text \<open>\<^verbatim>\<open>value.replace(/_([a-zA-Z])/g, (_, c) => c.toUpperCase())\<close>\<close>

fun toCamelCase :: "string \<Rightarrow> string" where
  "toCamelCase [] = []"
| "toCamelCase [c] = [c]"
| "toCamelCase (c # d # cs) =
     (if c = CHR ''_'' \<and> is_letter d then toUpperCase_char d # toCamelCase cs
      else c # toCamelCase (d # cs))"

text \<open>\<^verbatim>\<open>camelCase.charAt(0).toUpperCase() + camelCase.substring(1)\<close>\<close>

definition toPascalCase :: "string \<Rightarrow> string" where
  "toPascalCase v = (case toCamelCase v of [] \<Rightarrow> [] | c # cs \<Rightarrow> toUpperCase_char c # cs)"

text \<open>\<^verbatim>\<open>Array.prototype.join\<close> on strings.\<close>

fun js_join :: "string \<Rightarrow> string list \<Rightarrow> string" where
  "js_join sep [] = []"
| "js_join sep [x] = x"
| "js_join sep (x # y # ys) = x @ sep @ js_join sep (y # ys)"

text \<open>\<^verbatim>\<open>s.split(',')\<close>: the empty string splits into one empty piece.\<close>

fun split_comma :: "string \<Rightarrow> string list" where
  "split_comma [] = [[]]"
| "split_comma (c # cs) =
     (if c = CHR '','' then [] # split_comma cs
      else (case split_comma cs of [] \<Rightarrow> [[c]] | x # xs \<Rightarrow> (c # x) # xs))"

text \<open>
  \<^verbatim>\<open>s.substring(a, b)\<close>: both indices are clamped to the string and swapped when the
  first is the larger one.
\<close>

definition js_substring :: "string \<Rightarrow> int \<Rightarrow> int \<Rightarrow> string" where
  "js_substring s a b =
     (let n = int (length s);
          a' = max 0 (min a n);
          b' = max 0 (min b n);
          lo = min a' b';
          hi = max a' b'
      in take (nat (hi - lo)) (drop (nat lo) s))"

definition ends_with :: "string \<Rightarrow> string \<Rightarrow> bool" where
  "ends_with t s = (length t \<le> length s \<and> drop (length s - length t) s = t)"

definition starts_with :: "string \<Rightarrow> string \<Rightarrow> bool" where
  "starts_with t s = (take (length t) s = t)"

text \<open>Decimal rendering of a number, as a template literal does it.\<close>

definition digit_char :: "nat \<Rightarrow> char" where
  "digit_char d = ''0123456789abcdef'' ! (d mod 16)"

function show_nat :: "nat \<Rightarrow> string" where
  "show_nat n = (if n < 10 then [digit_char n] else show_nat (n div 10) @ [digit_char (n mod 10)])"
  by pat_completeness auto
termination
  by (relation "measure id") auto

declare show_nat.simps [simp del]

section \<open>Errors\<close>

text \<open>
  \<open>UnhandledDataType t\<close> is \<^verbatim>\<open>throw new Error(`Unhandled data type: ${t}`)\<close>;
  \<open>TypeError\<close> is the error of the runtime when a property of \<^verbatim>\<open>undefined\<close> is read or
  a value that is not a function is called; \<open>SyntaxError\<close> is the error of
  \<^verbatim>\<open>new RegExp\<close> on an invalid pattern.
\<close>

datatype error = UnhandledDataType string | TypeError | SyntaxError

section \<open>Catalog rows\<close>

text \<open>
  One row of \<^verbatim>\<open>columnQuery\<close>. \<open>keys\<close> is the aggregated array of constraint types, whose
  members may be \<^verbatim>\<open>null\<close>; \<open>enum_values\<close> is read by the code as the text \<^verbatim>\<open>{a,b}\<close>.
  A field that is \<open>None\<close> is \<^verbatim>\<open>null\<close> (or absent, as in the row that the array case builds).
\<close>

record column_row =
  column_name :: string
  ordinal_position :: nat
  column_default :: "string option"
  is_nullable :: string
  data_type :: string
  character_maximum_length :: "nat option"
  numeric_precision :: "nat option"
  udt_name :: "string option"
  enum_values :: "string option"
  keys :: "string option list"

text \<open>The object \<^verbatim>\<open>{data_type: t}\<close> of the array case: every other field is absent.\<close>

definition bare_row :: "string \<Rightarrow> column_row" where
  "bare_row t =
     \<lparr>column_name = [], ordinal_position = 0, column_default = None, is_nullable = [],
      data_type = t, character_maximum_length = None, numeric_precision = None,
      udt_name = None, enum_values = None, keys = []\<rparr>"

section \<open>getColumnType\<close>

record type_data =
  dataType :: string
  docType :: string
  comment :: "string option"
  tsType :: string

text \<open>\<^verbatim>\<open>row.character_maximum_length || 'null'\<close>: zero is falsy as well.\<close>

definition length_or_null :: "nat option \<Rightarrow> string" where
  "length_or_null l = (case l of None \<Rightarrow> ''null'' | Some n \<Rightarrow> if n = 0 then ''null'' else show_nat n)"

text \<open>\<^verbatim>\<open>udt_name.replace(/\[]$/, '')\<close>\<close>

definition strip_array_suffix :: "string \<Rightarrow> string" where
  "strip_array_suffix u = (if ends_with ''[]'' u then take (length u - 2) u else u)"

text \<open>
  \<^verbatim>\<open>`ENUM('${values.join('\', \'')}')`\<close> with
  \<^verbatim>\<open>values = row.enum_values.substring(1, row.enum_values.length - 1).split(',')\<close>
\<close>

definition enum_dataType :: "string \<Rightarrow> string" where
  "enum_dataType ev =
     ''ENUM('' @ [CHR 0x27] @
       js_join ([CHR 0x27] @ '', '' @ [CHR 0x27]) (split_comma (js_substring ev 1 (int (length ev) - 1))) @
       [CHR 0x27] @ '')''"

text \<open>How the array case wraps the classification of its element type.\<close>

definition array_wrap :: "string \<Rightarrow> type_data \<Rightarrow> type_data" where
  "array_wrap u inner =
     \<lparr>dataType = ''ARRAY(DataTypes.'' @ dataType inner @ '')'',
      docType = ''Array'',
      comment = Some u,
      tsType = tsType inner @ ''[]''\<rparr>"

function getColumnType :: "column_row \<Rightarrow> error + type_data" where
  "getColumnType row =
    (if data_type row = ''integer'' \<or> data_type row = ''smallint'' then
       Inr \<lparr>dataType = ''INTEGER'', docType = ''number'', comment = None, tsType = ''number''\<rparr>
     else if data_type row = ''numeric'' then
       Inr \<lparr>dataType = ''DOUBLE'', docType = ''number'', comment = None, tsType = ''number''\<rparr>
     else if data_type row = ''character varying'' then
       Inr \<lparr>dataType = ''STRING('' @ length_or_null (character_maximum_length row) @ '')'',
            docType = ''string'', comment = None, tsType = ''string''\<rparr>
     else if data_type row = ''character'' then
       Inr \<lparr>dataType = ''CHAR('' @ length_or_null (character_maximum_length row) @ '')'',
            docType = ''string'', comment = None, tsType = ''string''\<rparr>
     else if data_type row = ''date'' then
       Inr \<lparr>dataType = ''DATEONLY'', docType = ''Date'', comment = None, tsType = ''Date''\<rparr>
     else if data_type row = ''timestamp with time zone'' then
       Inr \<lparr>dataType = ''DATE'', docType = ''Date'', comment = None, tsType = ''Date''\<rparr>
     else if data_type row = ''jsonb'' then
       Inr \<lparr>dataType = ''JSONB'', docType = ''Object'', comment = None, tsType = ''any''\<rparr>
     else if data_type row = ''json'' then
       Inr \<lparr>dataType = ''JSON'', docType = ''Object'', comment = None, tsType = ''any''\<rparr>
     else if data_type row = ''boolean'' then
       Inr \<lparr>dataType = ''BOOLEAN'', docType = ''boolean'', comment = None, tsType = ''boolean''\<rparr>
     else if data_type row = ''USER-DEFINED'' then
       (case enum_values row of
          None \<Rightarrow> Inl TypeError
        | Some ev \<Rightarrow>
            Inr \<lparr>dataType = enum_dataType ev, docType = ''string'',
                 comment = Some (''user defined type: '' @
                                 (case udt_name row of None \<Rightarrow> ''null'' | Some u \<Rightarrow> u)),
                 tsType = ''string''\<rparr>)
     else if data_type row = ''text'' then
       Inr \<lparr>dataType = ''TEXT'', docType = ''string'', comment = None, tsType = ''string''\<rparr>
     else if data_type row = ''ARRAY'' then
       (case udt_name row of
          None \<Rightarrow> Inl TypeError
        | Some u \<Rightarrow>
            (case getColumnType (bare_row (strip_array_suffix u)) of
               Inl e \<Rightarrow> Inl e
             | Inr inner \<Rightarrow> Inr (array_wrap u inner)))
     else Inl (UnhandledDataType (data_type row)))"
  by pat_completeness auto
termination
  by (relation "measure (\<lambda>row. case udt_name row of None \<Rightarrow> 0 | Some _ \<Rightarrow> Suc 0)")
     (auto simp: bare_row_def)

declare getColumnType.simps [simp del]

section \<open>Default values\<close>

text \<open>
  \<open>defaultValue\<close> holds \<^verbatim>\<open>null\<close>, a string of generated code, a boolean or a number.
  A number is a double: \<^verbatim>\<open>NaN\<close>, or \<open>Number i\<close> for an integer \<open>i\<close> of magnitude at most
  2^53, which a double holds exactly, or \<open>Rounded i\<close>, the double that the runtime rounds a
  larger integer \<open>i\<close> to. The model does not compute the value of a rounded number.
\<close>

datatype js_number = NaN | Number int | Rounded int

definition js_integer :: "int \<Rightarrow> js_number" where
  "js_integer i = (if \<bar>i\<bar> \<le> 2 ^ 53 then Number i else Rounded i)"

datatype default_value = DNull | DText string | DBool bool | DNum js_number

definition quote :: char where
  "quote = CHR 0x27"

text \<open>The characters that \<^verbatim>\<open>.\<close> does not match.\<close>

definition is_line_terminator :: "char \<Rightarrow> bool" where
  "is_line_terminator c = (c = CHR 0x0A \<or> c = CHR 0x0D)"

definition one_line :: "string \<Rightarrow> bool" where
  "one_line s = (filter is_line_terminator s = [])"

text \<open>
  \<^verbatim>\<open>/^'(.*)'(?:::character varying)?$/.exec(s)\<close>, giving group 1. The subject has to open
  with a quote and to close with a quote, or with a quote and the cast; the two cannot both
  hold, so the greedy group has one candidate.
\<close>

definition match_string_literal :: "string \<Rightarrow> string option" where
  "match_string_literal s =
     (case s of
        [] \<Rightarrow> None
      | c # rest \<Rightarrow>
          if c \<noteq> quote then None
          else if ends_with [quote] rest \<and> one_line (butlast rest) then Some (butlast rest)
          else if ends_with (quote # ''::character varying'') rest
                  \<and> one_line (take (length rest - length (quote # ''::character varying'')) rest)
               then Some (take (length rest - length (quote # ''::character varying'')) rest)
          else None)"

text \<open>
  The group of \<^verbatim>\<open>'(.+)'\<close> when the closing quote is the end of \<open>body\<close>: the match starts
  at the leftmost quote that is followed by at least one character and by no line terminator.
\<close>

fun leftmost_group :: "string \<Rightarrow> string option" where
  "leftmost_group [] = None"
| "leftmost_group (c # cs) =
     (if c = quote \<and> cs \<noteq> [] \<and> one_line cs then Some cs else leftmost_group cs)"

text \<open>
  \<^verbatim>\<open>/'(.+)'::ty$/.exec(s)\<close> for a type name \<open>ty\<close> without special characters, giving
  group 1. The pattern is not anchored at the start.
\<close>

definition match_cast :: "string \<Rightarrow> string \<Rightarrow> string option" where
  "match_cast ty s =
     (if ends_with (quote # ''::'' @ ty) s
      then leftmost_group (take (length s - length (quote # ''::'' @ ty)) s)
      else None)"

text \<open>
  The pattern of the enum case is built from the type name, which is not escaped. For a name
  of plain characters the match is \<open>match_cast\<close>. For any other name the regular-expression
  engine is a parameter \<open>rx\<close>, from the pattern and the subject to group 1 of the match, or to
  the error of \<^verbatim>\<open>new RegExp\<close>.
\<close>

type_synonym regexp_engine = "string \<Rightarrow> string \<Rightarrow> error + string option"

definition regexp_special :: string where
  "regexp_special = CHR 0x5C # ''^$.|?*+()[]{}''"

definition plain_pattern :: "string \<Rightarrow> bool" where
  "plain_pattern u = (filter (\<lambda>c. c \<in> set regexp_special) u = [])"

definition enum_cast_exec :: "regexp_engine \<Rightarrow> string \<Rightarrow> string \<Rightarrow> error + string option" where
  "enum_cast_exec rx u s =
     (if plain_pattern u then Inr (match_cast u s)
      else rx (quote # ''(.+)'' @ quote # ''::'' @ u @ ''$'') s)"

text \<open>\<^verbatim>\<open>JSON.stringify\<close> of a string.\<close>

definition json_escape :: "char \<Rightarrow> string" where
  "json_escape c =
     (if c = CHR 0x22 then [CHR 0x5C, CHR 0x22]
      else if c = CHR 0x5C then [CHR 0x5C, CHR 0x5C]
      else if c = CHR 0x08 then [CHR 0x5C, CHR ''b'']
      else if c = CHR 0x09 then [CHR 0x5C, CHR ''t'']
      else if c = CHR 0x0A then [CHR 0x5C, CHR ''n'']
      else if c = CHR 0x0C then [CHR 0x5C, CHR ''f'']
      else if c = CHR 0x0D then [CHR 0x5C, CHR ''r'']
      else if (of_char c :: nat) < 32
        then CHR 0x5C # ''u00'' @ [digit_char (of_char c div 16), digit_char (of_char c mod 16)]
      else [c])"

definition JSON_stringify :: "string \<Rightarrow> string" where
  "JSON_stringify s = CHR 0x22 # concat (map json_escape s) @ [CHR 0x22]"

text \<open>
  \<^verbatim>\<open>parseInt(s)\<close> without a radix: leading white space and one sign are skipped, a prefix
  \<^verbatim>\<open>0x\<close> selects radix 16, and the longest prefix of digits is the value, as a double. No
  digit at all gives \<^verbatim>\<open>NaN\<close>.
\<close>

definition is_js_space :: "char \<Rightarrow> bool" where
  "is_js_space c = (c \<in> set [CHR 0x09, CHR 0x0A, CHR 0x0B, CHR 0x0C, CHR 0x0D, CHR 0x20, CHR 0xA0])"

definition digit_value :: "nat \<Rightarrow> char \<Rightarrow> nat option" where
  "digit_value radix c =
     (case map_of (zip ''0123456789abcdef'' [0, 1, 2, 3, 4, 5, 6, 7, 8, 9, 10, 11, 12, 13, 14, 15] @
                   zip ''ABCDEF'' [10, 11, 12, 13, 14, 15]) c of
        None \<Rightarrow> None
      | Some d \<Rightarrow> if d < radix then Some d else None)"

fun digits_prefix :: "nat \<Rightarrow> string \<Rightarrow> nat list" where
  "digits_prefix radix [] = []"
| "digits_prefix radix (c # cs) =
     (case digit_value radix c of None \<Rightarrow> [] | Some d \<Rightarrow> d # digits_prefix radix cs)"

definition digits_number :: "nat \<Rightarrow> nat list \<Rightarrow> nat" where
  "digits_number radix ds = foldl (\<lambda>a d. a * radix + d) 0 ds"

definition parseInt :: "string \<Rightarrow> js_number" where
  "parseInt s =
     (let t = dropWhile is_js_space s;
          negative = starts_with ''-'' t;
          u = (if starts_with ''-'' t \<or> starts_with ''+'' t then drop 1 t else t);
          hex = (starts_with ''0x'' u \<or> starts_with ''0X'' u);
          ds = (if hex then digits_prefix 16 (drop 2 u) else digits_prefix 10 u);
          n = int (digits_number (if hex then 16 else 10) ds)
      in if ds = [] then NaN else js_integer (if negative then - n else n))"

text \<open>
  The chain of lines 377 to 393, from the row and the \<open>dataType\<close> that \<open>getColumnType\<close> gave,
  to \<open>(defaultValue, isAutoIncrement)\<close>. \<^verbatim>\<open>exec\<close> and \<^verbatim>\<open>test\<close> turn a \<^verbatim>\<open>null\<close> subject
  into the text \<^verbatim>\<open>null\<close>; \<open>present\<close> is the truthiness of \<^verbatim>\<open>row.column_default\<close>.
\<close>

definition regexp_subject :: "string option \<Rightarrow> string" where
  "regexp_subject d = (case d of None \<Rightarrow> ''null'' | Some s \<Rightarrow> s)"

definition present :: "string option \<Rightarrow> bool" where
  "present d = (case d of None \<Rightarrow> False | Some s \<Rightarrow> s \<noteq> [])"

definition resolve_default :: "regexp_engine \<Rightarrow> column_row \<Rightarrow> string \<Rightarrow> error + default_value \<times> bool" where
  "resolve_default rx row dt =
     (case match_string_literal (regexp_subject (column_default row)) of
        Some m \<Rightarrow> Inr (DText (JSON_stringify m), False)
      | None \<Rightarrow>
       (case match_cast ''jsonb'' (regexp_subject (column_default row)) of
          Some m \<Rightarrow> Inr (DText m, False)
        | None \<Rightarrow>
            if column_default row = Some ''now()'' then Inr (DText ''DataTypes.NOW'', False)
            else if starts_with ''nextval('' (regexp_subject (column_default row)) then Inr (DNull, True)
            else if present (column_default row) \<and> dt = ''BOOLEAN''
              then Inr (DBool (column_default row \<noteq> Some ''false''), False)
            else if present (column_default row) \<and> dt = ''INTEGER''
              then Inr (DNum (parseInt (regexp_subject (column_default row))), False)
            else if present (column_default row) \<and> data_type row = ''ARRAY''
              then Inr (DText ''[]'', False)
            else if data_type row = ''USER-DEFINED'' then
              (case enum_cast_exec rx (regexp_subject (udt_name row))
                      (regexp_subject (column_default row)) of
                 Inl e \<Rightarrow> Inl e
               | Inr None \<Rightarrow> Inr (DNull, False)
               | Inr (Some m) \<Rightarrow> Inr (DText (JSON_stringify m), False))
            else Inr (DNull, False)))"

section \<open>Columns\<close>

text \<open>
  The options of the command line that the generation reads. \<open>singularize\<close> and
  \<open>pluralize\<close> are the two functions of the inflection library, which the generator calls
  and does not define. \<open>show_rounded\<close> is the text that a template literal gives a rounded
  number, which is the runtime's.
\<close>

record config =
  typescript :: bool
  includeForeignKeys :: bool
  camelCase :: bool
  indent :: string
  singularize :: "string \<Rightarrow> string"
  pluralize :: "string \<Rightarrow> string"
  show_rounded :: "int \<Rightarrow> string"

text \<open>One entry of \<^verbatim>\<open>columnData\<close>.\<close>

record column_data =
  name :: string
  field :: string
  typeData :: type_data
  typeComment :: string
  isPrimaryKey :: bool
  allowNull :: bool
  autoIncrement :: bool
  defaultValue :: default_value

text \<open>\<^verbatim>\<open>dataTypeData.comment || row.data_type\<close>\<close>

definition comment_or :: "string option \<Rightarrow> string \<Rightarrow> string" where
  "comment_or c t = (case c of None \<Rightarrow> t | Some x \<Rightarrow> if x = [] then t else x)"

text \<open>
  The callback of \<^verbatim>\<open>rows.map\<close> in \<^verbatim>\<open>generateTableDefinition\<close>: \<open>Inr None\<close> is the
  \<^verbatim>\<open>null\<close> of an omitted foreign key, \<open>Inl\<close> is a throw.
\<close>

definition build_column :: "config \<Rightarrow> regexp_engine \<Rightarrow> column_row \<Rightarrow> error + column_data option" where
  "build_column cfg rx row =
     (if \<not> includeForeignKeys cfg \<and> Some ''FOREIGN KEY'' \<in> set (keys row) then Inr None
      else
        (case getColumnType row of
           Inl e \<Rightarrow> Inl e
         | Inr td \<Rightarrow>
            (case resolve_default rx row (dataType td) of
               Inl e \<Rightarrow> Inl e
             | Inr (dv, ai) \<Rightarrow>
                 Inr (Some
                   \<lparr>name = (if camelCase cfg then toCamelCase (column_name row) else column_name row),
                    field = column_name row,
                    typeData = td,
                    typeComment = comment_or (comment td) (data_type row),
                    isPrimaryKey = (Some ''PRIMARY KEY'' \<in> set (keys row)),
                    allowNull = (is_nullable row = ''YES''),
                    autoIncrement = ai,
                    defaultValue = dv\<rparr>))))"

text \<open>
  \<^verbatim>\<open>rows.map(...).filter(Boolean)\<close>: the rows are visited in order, the first throw ends
  the visit, and the omitted columns are dropped.
\<close>

fun build_columns :: "config \<Rightarrow> regexp_engine \<Rightarrow> column_row list \<Rightarrow> error + column_data list" where
  "build_columns cfg rx [] = Inr []"
| "build_columns cfg rx (row # rows) =
     (case build_column cfg rx row of
        Inl e \<Rightarrow> Inl e
      | Inr c \<Rightarrow>
         (case build_columns cfg rx rows of
            Inl e \<Rightarrow> Inl e
          | Inr cs \<Rightarrow> Inr (case c of None \<Rightarrow> cs | Some cd \<Rightarrow> cd # cs)))"

text \<open>The text of one column, as the callback returns it.\<close>

definition tab :: "string \<Rightarrow> nat \<Rightarrow> string" where
  "tab ind num = concat (replicate num ind)"

definition show_bool :: "bool \<Rightarrow> string" where
  "show_bool b = (if b then ''true'' else ''false'')"

definition show_int :: "int \<Rightarrow> string" where
  "show_int i = (if i < 0 then ''-'' @ show_nat (nat (- i)) else show_nat (nat i))"

definition show_default :: "(int \<Rightarrow> string) \<Rightarrow> default_value \<Rightarrow> string" where
  "show_default rounded d =
     (case d of
        DNull \<Rightarrow> ''null''
      | DText t \<Rightarrow> t
      | DBool b \<Rightarrow> show_bool b
      | DNum NaN \<Rightarrow> ''NaN''
      | DNum (Number i) \<Rightarrow> show_int i
      | DNum (Rounded i) \<Rightarrow> rounded i)"

definition column_lines :: "(int \<Rightarrow> string) \<Rightarrow> column_data \<Rightarrow> string list" where
  "column_lines rounded cd =
     [''field: '' @ [quote] @ field cd @ [quote],
      ''type: DataTypes.'' @ dataType (typeData cd) @ '' /* '' @ typeComment cd @ '' */'',
      ''primaryKey: '' @ show_bool (isPrimaryKey cd),
      ''allowNull: '' @ show_bool (allowNull cd),
      ''autoIncrement: '' @ show_bool (autoIncrement cd)] @
     (if defaultValue cd \<noteq> DNull
      then [''defaultValue: '' @ show_default rounded (defaultValue cd)] else [])"

definition column_code :: "(int \<Rightarrow> string) \<Rightarrow> string \<Rightarrow> column_data \<Rightarrow> string" where
  "column_code rounded ind cd =
     tab ind 2 @ name cd @ '': {'' @ [CHR 0x0A] @
     js_join ('','' @ [CHR 0x0A]) (map (\<lambda>line. tab ind 3 @ line) (column_lines rounded cd)) @
     [CHR 0x0A] @ tab ind 2 @ ''}''"

section \<open>Objects used as dictionaries\<close>

text \<open>
  \<^verbatim>\<open>associations\<close>, \<^verbatim>\<open>instancedModels\<close> and \<^verbatim>\<open>includedModels\<close> are object literals
  \<^verbatim>\<open>{}\<close> indexed by a name. Reading a name that the object does not own finds the member
  of \<^verbatim>\<open>Object.prototype\<close> of that name, when there is one: a function (or, for
  \<^verbatim>\<open>__proto__\<close>, the prototype itself), which is truthy and has neither \<^verbatim>\<open>push\<close> nor
  \<^verbatim>\<open>some\<close>.
\<close>

definition object_prototype_names :: "string list" where
  "object_prototype_names =
     [''constructor'', ''__defineGetter__'', ''__defineSetter__'', ''hasOwnProperty'',
      ''__lookupGetter__'', ''__lookupSetter__'', ''isPrototypeOf'', ''propertyIsEnumerable'',
      ''toString'', ''valueOf'', ''__proto__'', ''toLocaleString'']"

datatype 'a js_property = Undefined | Inherited | Own 'a

definition get_property :: "(string \<rightharpoonup> 'a) \<Rightarrow> string \<Rightarrow> 'a js_property" where
  "get_property obj k =
     (case obj k of
        Some v \<Rightarrow> Own v
      | None \<Rightarrow> if k \<in> set object_prototype_names then Inherited else Undefined)"

section \<open>generateAssociations\<close>

text \<open>One row of \<^verbatim>\<open>foreignKeyQuery\<close>; \<open>fk_column_name\<close> is its \<^verbatim>\<open>column_name\<close>.\<close>

record fk_row =
  constraint_name :: string
  table_name :: string
  fk_column_name :: string
  reference_table :: string
  reference_column :: string
  pri_key :: "string option"
  other_table :: "string option"

text \<open>An entry of \<^verbatim>\<open>associations[table]\<close>; a \<^verbatim>\<open>belongsTo\<close> entry has no \<^verbatim>\<open>manyToMany\<close>.\<close>

record association =
  manyToMany :: bool
  model :: string
  fileName :: string

type_synonym associations = "string \<rightharpoonup> association list"

text \<open>
  The statement that a row adds to the relations file:
  \<open>BelongsToMany s t p k\<close> is \<^verbatim>\<open>models.s.belongsToMany(models.t, { through: models.p, foreignKey: 'k' })\<close>;
  \<open>BelongsTo s t k a\<close> is \<^verbatim>\<open>models.s.belongsTo(models.t, { foreignKey: 'k', as: 'a' })\<close>.
\<close>

datatype relation =
  BelongsToMany string string string string
| BelongsTo string string string string

text \<open>
  \<^verbatim>\<open>otherTableName\<close> where \<^verbatim>\<open>if (otherTableName)\<close> holds: the pivot field when it is
  neither \<^verbatim>\<open>null\<close> nor empty.
\<close>

definition pivot_of :: "fk_row \<Rightarrow> string option" where
  "pivot_of row =
     (case other_table row of None \<Rightarrow> None | Some ot \<Rightarrow> if ot = [] then None else Some ot)"

definition relation_of :: "fk_row \<Rightarrow> relation" where
  "relation_of row =
     (case pivot_of row of
        Some ot \<Rightarrow>
          BelongsToMany (toPascalCase (reference_table row)) (toPascalCase ot)
            (toPascalCase (table_name row)) (fk_column_name row)
      | None \<Rightarrow>
          BelongsTo (toPascalCase (table_name row)) (toPascalCase (reference_table row))
            (fk_column_name row) (toCamelCase (reference_table row)))"

definition relation_text :: "relation \<Rightarrow> string" where
  "relation_text r =
     (case r of
        BelongsToMany s t p k \<Rightarrow>
          ''models.'' @ s @ ''.belongsToMany(models.'' @ t @ '', { through: models.'' @ p @
          '', foreignKey: '' @ [quote] @ k @ [quote] @ '' });''
      | BelongsTo s t k a \<Rightarrow>
          ''models.'' @ s @ ''.belongsTo(models.'' @ t @ '', { foreignKey: '' @ [quote] @ k @
          [quote] @ '', as: '' @ [quote] @ a @ [quote] @ '' });'')"

definition relation_comment :: "fk_row \<Rightarrow> string" where
  "relation_comment row =
     table_name row @ ''.'' @ fk_column_name row @ '' -> '' @ reference_table row @ ''.'' @
     reference_column row @ '' ('' @ constraint_name row @ '')''"

definition relation_code :: "string \<Rightarrow> fk_row \<Rightarrow> string" where
  "relation_code ind row =
     [CHR 0x0A] @ tab ind 1 @ ''// '' @ relation_comment row @
     [CHR 0x0A] @ tab ind 1 @ relation_text (relation_of row)"

text \<open>\<^verbatim>\<open>if (!associations[k]) { associations[k] = []; }\<close>\<close>

definition ensure_list :: "associations \<Rightarrow> string \<Rightarrow> associations" where
  "ensure_list obj k = (case get_property obj k of Undefined \<Rightarrow> obj(k \<mapsto> []) | _ \<Rightarrow> obj)"

text \<open>\<^verbatim>\<open>associations[k].push(a)\<close>\<close>

definition push_association :: "associations \<Rightarrow> string \<Rightarrow> association \<Rightarrow> error + associations" where
  "push_association obj k a =
     (case get_property obj k of Own xs \<Rightarrow> Inr (obj(k \<mapsto> xs @ [a])) | _ \<Rightarrow> Inl TypeError)"

text \<open>Lines 635 to 662: what one row registers.\<close>

definition register_row :: "fk_row \<Rightarrow> associations \<Rightarrow> error + associations" where
  "register_row row obj =
     (case pivot_of row of
        Some ot \<Rightarrow>
          (case push_association (ensure_list (ensure_list obj ot) (reference_table row)) ot
                  \<lparr>manyToMany = True, model = toPascalCase (reference_table row),
                   fileName = reference_table row\<rparr> of
             Inl e \<Rightarrow> Inl e
           | Inr obj' \<Rightarrow>
               push_association obj' (reference_table row)
                 \<lparr>manyToMany = True, model = toPascalCase ot, fileName = ot\<rparr>)
      | None \<Rightarrow>
          push_association (ensure_list obj (table_name row)) (table_name row)
            \<lparr>manyToMany = False, model = toPascalCase (reference_table row),
             fileName = reference_table row\<rparr>)"

text \<open>
  \<^verbatim>\<open>rows.map\<close> of \<^verbatim>\<open>generateAssociations\<close>, from the object so far to the texts of the
  rows and the object after the last row. A throw ends the run.
\<close>

fun generateAssociations :: "string \<Rightarrow> fk_row list \<Rightarrow> associations \<Rightarrow> error + string list \<times> associations" where
  "generateAssociations ind [] obj = Inr ([], obj)"
| "generateAssociations ind (row # rows) obj =
     (case register_row row obj of
        Inl e \<Rightarrow> Inl e
      | Inr obj' \<Rightarrow>
         (case generateAssociations ind rows obj' of
            Inl e \<Rightarrow> Inl e
          | Inr (codes, obj'') \<Rightarrow> Inr (relation_code ind row # codes, obj'')))"

section \<open>generateTableDefinition\<close>

text \<open>\<^verbatim>\<open>s[0].toLowerCase() + s.substring(1)\<close>: \<^verbatim>\<open>s[0]\<close> of the empty string is undefined.\<close>

definition lower_first :: "string \<Rightarrow> error + string" where
  "lower_first s = (case s of [] \<Rightarrow> Inl TypeError | c # cs \<Rightarrow> Inr (toLowerCase_char c # cs))"

text \<open>
  What the callback of \<^verbatim>\<open>associations[tableName].map\<close> returns for \<^verbatim>\<open>instanceCode\<close>:
  the empty string, one line, or an array of lines.
\<close>

datatype block = NoBlock | LineBlock string | LinesBlock "string list"

definition seen_model :: "string list \<Rightarrow> string \<Rightarrow> bool" where
  "seen_model seen m = (m \<in> set seen \<or> m \<in> set object_prototype_names)"

definition instance_block :: "config \<Rightarrow> association \<Rightarrow> error + block" where
  "instance_block cfg a =
     (if manyToMany a then
        (case lower_first (pluralize cfg (model a)) of
           Inl e \<Rightarrow> Inl e
         | Inr pluralLower \<Rightarrow>
            (case lower_first (singularize cfg (model a)) of
               Inl e \<Rightarrow> Inl e
             | Inr singularLower \<Rightarrow>
                 Inr (LinesBlock
                   [tab (indent cfg) 1 @ ''get'' @ pluralize cfg (model a) @
                      '': (options?: FindOptions<'' @ model a @ ''>) => Promise<'' @ model a @ ''[]>'',
                    tab (indent cfg) 1 @ ''set'' @ pluralize cfg (model a) @ '': ('' @ pluralLower @
                      '': '' @ model a @ ''[]) => Promise<void>'',
                    tab (indent cfg) 1 @ ''add'' @ singularize cfg (model a) @ '': ('' @
                      singularLower @ '': '' @ model a @ '') => Promise<void>'',
                    tab (indent cfg) 1 @ ''add'' @ pluralize cfg (model a) @ '': ('' @ pluralLower @
                      '': '' @ model a @ ''[]) => Promise<void>''])))
      else
        (case lower_first (model a) of
           Inl e \<Rightarrow> Inl e
         | Inr property \<Rightarrow>
             Inr (LineBlock (tab (indent cfg) 1 @ property @ '': '' @ model a @ '' | null''))))"

fun instance_map :: "config \<Rightarrow> string list \<Rightarrow> association list \<Rightarrow> error + block list" where
  "instance_map cfg seen [] = Inr []"
| "instance_map cfg seen (a # as) =
     (if seen_model seen (model a) then
        (case instance_map cfg seen as of Inl e \<Rightarrow> Inl e | Inr bs \<Rightarrow> Inr (NoBlock # bs))
      else
        (case instance_block cfg a of
           Inl e \<Rightarrow> Inl e
         | Inr b \<Rightarrow>
            (case instance_map cfg (model a # seen) as of
               Inl e \<Rightarrow> Inl e
             | Inr bs \<Rightarrow> Inr (b # bs))))"

text \<open>\<^verbatim>\<open>.filter(Boolean)\<close> and the \<^verbatim>\<open>reduce\<close> that flattens the blocks into lines.\<close>

definition block_truthy :: "block \<Rightarrow> bool" where
  "block_truthy b = (case b of NoBlock \<Rightarrow> False | LineBlock l \<Rightarrow> l \<noteq> [] | LinesBlock ls \<Rightarrow> True)"

definition block_lines :: "block \<Rightarrow> string list" where
  "block_lines b = (case b of NoBlock \<Rightarrow> [[]] | LineBlock l \<Rightarrow> [l] | LinesBlock ls \<Rightarrow> ls)"

definition import_line :: "association \<Rightarrow> string" where
  "import_line a = ''import { '' @ model a @ '' } from '' @ [quote] @ ''./'' @ fileName a @ [quote] @ '';''"

fun include_map :: "string list \<Rightarrow> association list \<Rightarrow> string list" where
  "include_map seen [] = []"
| "include_map seen (a # as) =
     (if seen_model seen (model a) then [] # include_map seen as
      else import_line a # include_map (model a # seen) as)"

text \<open>
  The file that \<^verbatim>\<open>generateTableDefinition\<close> writes, as the values that fill its template:
  \<open>instanceBlocks\<close> and \<open>includeLines\<close> are the blocks of the associations after
  \<^verbatim>\<open>filter(Boolean)\<close>, which the template joins with line breaks. The JavaScript template
  has no place for them.
\<close>

record model_file =
  tableName :: string
  ext :: string
  className :: string
  columns :: "column_data list"
  columnsCode :: string
  sequelizeImports :: "string list"
  instanceBlocks :: "block list"
  includeLines :: "string list"

definition instanceCode :: "model_file \<Rightarrow> string" where
  "instanceCode f = js_join [CHR 0x0A] (concat (map block_lines (instanceBlocks f)))"

definition includeCode :: "model_file \<Rightarrow> string" where
  "includeCode f = js_join [CHR 0x0A] (includeLines f)"

definition generateTableDefinition ::
  "config \<Rightarrow> regexp_engine \<Rightarrow> associations \<Rightarrow> string \<Rightarrow> column_row list \<Rightarrow> error + model_file" where
  "generateTableDefinition cfg rx obj t rows =
     (case build_columns cfg rx rows of
        Inl e \<Rightarrow> Inl e
      | Inr cds \<Rightarrow>
         (if typescript cfg then
            (case get_property obj t of
               Undefined \<Rightarrow>
                 Inr \<lparr>tableName = t, ext = ''ts'', className = singularize cfg (toPascalCase t),
                      columns = cds,
                      columnsCode =
                        js_join ('','' @ [CHR 0x0A])
                          (map (column_code (show_rounded cfg) (indent cfg)) cds),
                      sequelizeImports = [''DataTypes'', ''DefineAttributes'', ''DefineOptions''],
                      instanceBlocks = [], includeLines = []\<rparr>
             | Inherited \<Rightarrow> Inl TypeError
             | Own as \<Rightarrow>
                (case instance_map cfg [] as of
                   Inl e \<Rightarrow> Inl e
                 | Inr bs \<Rightarrow>
                     Inr \<lparr>tableName = t, ext = ''ts'', className = singularize cfg (toPascalCase t),
                          columns = cds,
                          columnsCode =
                        js_join ('','' @ [CHR 0x0A])
                          (map (column_code (show_rounded cfg) (indent cfg)) cds),
                          sequelizeImports =
                            [''DataTypes'', ''DefineAttributes'', ''DefineOptions''] @
                            (if filter manyToMany as \<noteq> [] then [''FindOptions''] else []),
                          instanceBlocks = filter block_truthy bs,
                          includeLines = filter (\<lambda>l. l \<noteq> []) (include_map [] as)\<rparr>))
          else
            Inr \<lparr>tableName = t, ext = ''js'', className = singularize cfg (toPascalCase t),
                 columns = cds,
                 columnsCode =
                        js_join ('','' @ [CHR 0x0A])
                          (map (column_code (show_rounded cfg) (indent cfg)) cds),
                 sequelizeImports = [], instanceBlocks = [], includeLines = []\<rparr>))"

section \<open>generateDefinitions\<close>

text \<open>
  \<^verbatim>\<open>information_schema.tables\<close> as rows \<open>(table_catalog, table_schema, table_name)\<close>, and
  \<^verbatim>\<open>allTablesQuery\<close> on it. \<^verbatim>\<open>ORDER BY table_name\<close> is the order of the names as lists of
  characters.
\<close>

type_synonym tables_row = "string \<times> string \<times> string"

definition allTablesQuery :: "tables_row list \<Rightarrow> string \<Rightarrow> string \<Rightarrow> string list" where
  "allTablesQuery view dbName schemaName =
     sort (map (\<lambda>(c, s, n). n) (filter (\<lambda>(c, s, n). c = dbName \<and> s = schemaName) view))"

text \<open>
  The loop over \<^verbatim>\<open>tables\<close>: the files written, in the order of writing, and the error that
  ended the run, if any. \<open>columnQuery\<close> gives the rows of a table.
\<close>

fun generateDefinitions ::
  "config \<Rightarrow> regexp_engine \<Rightarrow> associations \<Rightarrow> (string \<Rightarrow> column_row list) \<Rightarrow> string list
     \<Rightarrow> model_file list \<times> error option" where
  "generateDefinitions cfg rx obj columnQuery [] = ([], None)"
| "generateDefinitions cfg rx obj columnQuery (t # ts) =
     (case generateTableDefinition cfg rx obj t (columnQuery t) of
        Inl e \<Rightarrow> ([], Some e)
      | Inr f \<Rightarrow>
         (case generateDefinitions cfg rx obj columnQuery ts of
            (fs, r) \<Rightarrow> (f # fs, r)))"

text \<open>
  \<^verbatim>\<open>generate\<close>: the associations first, then the definitions. The result is the texts of the
  relations (when that step ended), the model files written, and the error, if any.
\<close>

definition generate ::
  "config \<Rightarrow> regexp_engine \<Rightarrow> tables_row list \<Rightarrow> string \<Rightarrow> string \<Rightarrow> fk_row list
     \<Rightarrow> (string \<Rightarrow> column_row list) \<Rightarrow> string list option \<times> model_file list \<times> error option" where
  "generate cfg rx view dbName schemaName fkeys columnQuery =
     (case generateAssociations (indent cfg) fkeys Map.empty of
        Inl e \<Rightarrow> (None, [], Some e)
      | Inr (codes, obj) \<Rightarrow>
         (case generateDefinitions cfg rx obj columnQuery (allTablesQuery view dbName schemaName) of
            (fs, r) \<Rightarrow> (Some codes, fs, r)))"

section \<open>The types that the classification names\<close>

text \<open>
  The labels of the \<^verbatim>\<open>switch\<close> of \<open>getColumnType\<close>: \<open>scalar_types\<close> are the cases that
  read nothing but \<^verbatim>\<open>data_type\<close> (and, for the character types, the length);
  \<open>supported_types\<close> adds the enum and the array case. \<open>scalar_kinds\<close> are the values that
  \<open>docType\<close> takes.
\<close>

definition scalar_types :: "string list" where
  "scalar_types = [''integer'', ''smallint'', ''numeric'', ''character varying'', ''character'',
     ''date'', ''timestamp with time zone'', ''jsonb'', ''json'', ''boolean'', ''text'']"

definition supported_types :: "string list" where
  "supported_types = scalar_types @ [''USER-DEFINED'', ''ARRAY'']"

definition scalar_kinds :: "string list" where
  "scalar_kinds = [''number'', ''string'', ''Date'', ''Object'', ''boolean'', ''Array'']"

text \<open>
  The rows that \<open>getColumnType\<close> classifies: a scalar type; an enum whose labels are there;
  an array whose element name, after the removal of \<^verbatim>\<open>[]\<close>, is a scalar type.
\<close>

definition classifiable :: "column_row \<Rightarrow> bool" where
  "classifiable row =
     (data_type row \<in> set scalar_types
      \<or> (data_type row = ''USER-DEFINED'' \<and> enum_values row \<noteq> None)
      \<or> (data_type row = ''ARRAY'' \<and>
          (case udt_name row of None \<Rightarrow> False | Some u \<Rightarrow> strip_array_suffix u \<in> set scalar_types)))"

section \<open>The rules of the default chain\<close>

text \<open>
  \<open>rule_matches\<close> holds when one of the eight branches of the chain of \<open>resolve_default\<close>
  takes the row.
\<close>

definition rule_matches :: "regexp_engine \<Rightarrow> column_row \<Rightarrow> string \<Rightarrow> bool" where
  "rule_matches rx row dt =
     (match_string_literal (regexp_subject (column_default row)) \<noteq> None
      \<or> match_cast ''jsonb'' (regexp_subject (column_default row)) \<noteq> None
      \<or> column_default row = Some ''now()''
      \<or> starts_with ''nextval('' (regexp_subject (column_default row))
      \<or> (present (column_default row) \<and> dt = ''BOOLEAN'')
      \<or> (present (column_default row) \<and> dt = ''INTEGER'')
      \<or> (present (column_default row) \<and> data_type row = ''ARRAY'')
      \<or> (data_type row = ''USER-DEFINED'' \<and>
          (case enum_cast_exec rx (regexp_subject (udt_name row))
                  (regexp_subject (column_default row)) of
             Inr (Some m) \<Rightarrow> True
           | _ \<Rightarrow> False)))"

text \<open>An engine for the examples, which never reach it: it rejects every pattern.\<close>

definition rejecting_engine :: regexp_engine where
  "rejecting_engine p s = Inl SyntaxError"

text \<open>
  A configuration for the examples: JavaScript output, foreign keys omitted, names as they
  are, a tab as the indentation, and an inflection that adds and removes a final \<^verbatim>\<open>s\<close>.
  No example has a rounded number, so its text is left empty.
\<close>

definition example_singularize :: "string \<Rightarrow> string" where
  "example_singularize s = (if ends_with ''s'' s then butlast s else s)"

definition example_pluralize :: "string \<Rightarrow> string" where
  "example_pluralize s = (if ends_with ''s'' s then s else s @ ''s'')"

definition example_config :: config where
  "example_config =
     \<lparr>typescript = False, includeForeignKeys = False, camelCase = False, indent = [CHR 0x09],
      singularize = example_singularize, pluralize = example_pluralize,
      show_rounded = (\<lambda>i. [])\<rparr>"

text \<open>The two columns of a pivot table: each is a foreign key and a part of the primary key.\<close>

definition pivot_rows :: "column_row list" where
  "pivot_rows =
     [(bare_row ''integer'')\<lparr>column_name := ''post_id'', is_nullable := ''NO'',
        keys := [Some ''FOREIGN KEY'', Some ''PRIMARY KEY'']\<rparr>,
      (bare_row ''integer'')\<lparr>column_name := ''tag_id'', is_nullable := ''NO'',
        keys := [Some ''FOREIGN KEY'', Some ''PRIMARY KEY'']\<rparr>]"

section \<open>What the associations hold\<close>

text \<open>
  \<open>the_list obj t\<close> reads the entries of table \<open>t\<close>, none when the object does not own
  \<open>t\<close>. \<open>registered_for t row\<close> lists the entries that one row of \<^verbatim>\<open>foreignKeyQuery\<close>
  pushes under \<open>t\<close>, in the order of lines 643 to 661. \<open>inherited k\<close> holds for the names
  that an object literal finds in its prototype.
\<close>

definition the_list :: "associations \<Rightarrow> string \<Rightarrow> association list" where
  "the_list obj t = (case obj t of None \<Rightarrow> [] | Some xs \<Rightarrow> xs)"

definition inherited :: "string \<Rightarrow> bool" where
  "inherited k = (k \<in> set object_prototype_names)"

definition registered_for :: "string \<Rightarrow> fk_row \<Rightarrow> association list" where
  "registered_for t row =
     (case pivot_of row of
        Some ot \<Rightarrow>
          (if t = ot
           then [\<lparr>manyToMany = True, model = toPascalCase (reference_table row),
                  fileName = reference_table row\<rparr>]
           else []) @
          (if t = reference_table row
           then [\<lparr>manyToMany = True, model = toPascalCase ot, fileName = ot\<rparr>]
           else [])
      | None \<Rightarrow>
          (if t = table_name row
           then [\<lparr>manyToMany = False, model = toPascalCase (reference_table row),
                  fileName = reference_table row\<rparr>]
           else []))"

text \<open>
  \<open>first_per_model seen as\<close> lists the entries of \<open>as\<close> that the two callbacks of
  \<open>generateTableDefinition\<close> do not skip: those whose model was not met before.
\<close>

fun first_per_model :: "string list \<Rightarrow> association list \<Rightarrow> association list" where
  "first_per_model seen [] = []"
| "first_per_model seen (a # as) =
     (if seen_model seen (model a) then first_per_model seen as
      else a # first_per_model (model a # seen) as)"

text \<open>No underscore of the text is followed by a lower-case letter.\<close>

fun no_underscore_lower :: "string \<Rightarrow> bool" where
  "no_underscore_lower [] = True"
| "no_underscore_lower [c] = True"
| "no_underscore_lower (c # d # cs) =
     (\<not> (c = CHR ''_'' \<and> d \<in> set lower_letters) \<and> no_underscore_lower (d # cs))"

text \<open>
  The rows of the examples: a pivot table \<^verbatim>\<open>post_tag\<close> between \<^verbatim>\<open>post\<close> and \<^verbatim>\<open>tag\<close>,
  a table \<^verbatim>\<open>message\<close> with two foreign keys to \<^verbatim>\<open>person\<close>, and a row of a pivot table between
  \<^verbatim>\<open>driver\<close> and \<^verbatim>\<open>constructor\<close>.
\<close>

definition example_fk :: "string \<Rightarrow> string \<Rightarrow> string \<Rightarrow> string option \<Rightarrow> string option \<Rightarrow> fk_row" where
  "example_fk t c r pk ot =
     \<lparr>constraint_name = t @ ''_'' @ c @ ''_fkey'', table_name = t, fk_column_name = c,
      reference_table = r, reference_column = ''id'', pri_key = pk, other_table = ot\<rparr>"

definition post_tag_post :: fk_row where
  "post_tag_post = example_fk ''post_tag'' ''post_id'' ''post'' (Some ''post_tag_pkey'') (Some ''tag'')"

definition post_tag_tag :: fk_row where
  "post_tag_tag = example_fk ''post_tag'' ''tag_id'' ''tag'' (Some ''post_tag_pkey'') (Some ''post'')"

definition message_sender :: fk_row where
  "message_sender = example_fk ''message'' ''sender_id'' ''person'' None None"

definition message_recipient :: fk_row where
  "message_recipient = example_fk ''message'' ''recipient_id'' ''person'' None None"

definition driver_constructor :: fk_row where
  "driver_constructor =
     example_fk ''driver_constructor'' ''driver_id'' ''driver'' (Some ''driver_constructor_pkey'')
       (Some ''constructor'')"

text \<open>The entry that each of the two foreign keys of \<^verbatim>\<open>message\<close> registers.\<close>

definition person_entry :: association where
  "person_entry = \<lparr>manyToMany = False, model = ''Person'', fileName = ''person''\<rparr>"

text \<open>
  A catalog for the examples: the schema \<^verbatim>\<open>public\<close> of the database \<^verbatim>\<open>blog\<close> lists
  \<^verbatim>\<open>post\<close> before \<^verbatim>\<open>author\<close>. \<open>example_columns\<close> gives each table a key column;
  \<open>bigint_columns\<close> gives it a key column of type \<^verbatim>\<open>bigint\<close>.
\<close>

definition example_view :: "tables_row list" where
  "example_view =
     [(''blog'', ''public'', ''post''), (''blog'', ''public'', ''author''),
      (''blog'', ''archive'', ''entry'')]"

definition example_columns :: "string \<Rightarrow> column_row list" where
  "example_columns t =
     [(bare_row ''integer'')\<lparr>column_name := ''id'', is_nullable := ''NO'',
        keys := [Some ''PRIMARY KEY'']\<rparr>]"

definition bigint_columns :: "string \<Rightarrow> column_row list" where
  "bigint_columns t =
     [(bare_row ''bigint'')\<lparr>column_name := ''id'', is_nullable := ''NO'',
        keys := [Some ''PRIMARY KEY'']\<rparr>]"

section \<open>Properties of the classification\<close>

lemma strip_array_suffix_append: "strip_array_suffix (e @ ''[]'') = e"
  by (simp add: strip_array_suffix_def ends_with_def)

lemma getColumnType_scalar:
  assumes "data_type row \<in> set scalar_types"
  shows "\<exists>t. getColumnType row = Inr t \<and> docType t \<in> set scalar_kinds \<and> docType t \<noteq> ''Array''"
  using assms by (subst getColumnType.simps) (auto simp: scalar_types_def scalar_kinds_def)

lemma getColumnType_integer:
  assumes "data_type row = ''integer'' \<or> data_type row = ''smallint''"
  shows "getColumnType row =
     Inr \<lparr>dataType = ''INTEGER'', docType = ''number'', comment = None, tsType = ''number''\<rparr>"
  using assms by (subst getColumnType.simps) auto

lemma getColumnType_numeric:
  assumes "data_type row = ''numeric''"
  shows "getColumnType row =
     Inr \<lparr>dataType = ''DOUBLE'', docType = ''number'', comment = None, tsType = ''number''\<rparr>"
  using assms by (subst getColumnType.simps) auto

lemma getColumnType_enum:
  assumes "data_type row = ''USER-DEFINED''"
  shows "getColumnType row =
     (case enum_values row of
        None \<Rightarrow> Inl TypeError
      | Some ev \<Rightarrow>
          Inr \<lparr>dataType = enum_dataType ev, docType = ''string'',
               comment = Some (''user defined type: '' @
                               (case udt_name row of None \<Rightarrow> ''null'' | Some u \<Rightarrow> u)),
               tsType = ''string''\<rparr>)"
  using assms by (subst getColumnType.simps) simp

lemma getColumnType_array:
  assumes "data_type row = ''ARRAY''"
  shows "getColumnType row =
     (case udt_name row of
        None \<Rightarrow> Inl TypeError
      | Some u \<Rightarrow>
          (case getColumnType (bare_row (strip_array_suffix u)) of
             Inl e \<Rightarrow> Inl e
           | Inr inner \<Rightarrow> Inr (array_wrap u inner)))"
  using assms by (subst getColumnType.simps) simp

lemma getColumnType_unhandled:
  assumes "data_type row \<notin> set supported_types"
  shows "getColumnType row = Inl (UnhandledDataType (data_type row))"
  using assms by (subst getColumnType.simps) (simp add: supported_types_def scalar_types_def)

text \<open>
  The row of the array case carries its type name only, so an element named as an enum or as
  an array reads a field that is not there.
\<close>

lemma getColumnType_bare:
  "getColumnType (bare_row e) =
     (if e \<in> set scalar_types then getColumnType (bare_row e)
      else if e = ''USER-DEFINED'' \<or> e = ''ARRAY'' then Inl TypeError
      else Inl (UnhandledDataType e))"
proof -
  have d: "data_type (bare_row e) = e" "udt_name (bare_row e) = None"
    "enum_values (bare_row e) = None"
    by (simp_all add: bare_row_def)
  show ?thesis
  proof (cases "e \<in> set scalar_types")
    case True
    then show ?thesis by simp
  next
    case False
    show ?thesis
    proof (cases "e = ''USER-DEFINED'' \<or> e = ''ARRAY''")
      case True
      then show ?thesis
        using False d getColumnType_enum[of "bare_row e"] getColumnType_array[of "bare_row e"]
        by auto
    next
      case n: False
      then have "e \<notin> set supported_types"
        using False by (simp add: supported_types_def)
      then show ?thesis
        using False n getColumnType_unhandled[of "bare_row e"] d by simp
    qed
  qed
qed

text \<open>
  C3, as the code has it. A row is classified, with a \<open>docType\<close> among the six kinds, exactly
  when its type is a scalar type, or an enum whose labels are present, or an array whose
  element name (the \<^verbatim>\<open>udt_name\<close> without its final \<^verbatim>\<open>[]\<close>) is a scalar type; every
  other row fails. A type name outside the supported set fails with
  \<open>UnhandledDataType\<close> of that name, and so does an array whose element name is outside the
  supported set, with the name of the element.
\<close>

theorem classification_outcome:
  "(classifiable row \<longrightarrow> (\<exists>t. getColumnType row = Inr t \<and> docType t \<in> set scalar_kinds))
   \<and> (\<not> classifiable row \<longrightarrow> (\<exists>e. getColumnType row = Inl e))
   \<and> (data_type row \<notin> set supported_types \<longrightarrow>
        getColumnType row = Inl (UnhandledDataType (data_type row)))
   \<and> (data_type row = ''ARRAY'' \<and> udt_name row = Some u
        \<and> strip_array_suffix u \<notin> set supported_types \<longrightarrow>
        getColumnType row = Inl (UnhandledDataType (strip_array_suffix u)))"
proof (intro conjI impI)
  assume c: "classifiable row"
  then consider (s) "data_type row \<in> set scalar_types"
    | (e) "data_type row = ''USER-DEFINED''" "enum_values row \<noteq> None"
    | (a) v where "data_type row = ''ARRAY''" "udt_name row = Some v"
        "strip_array_suffix v \<in> set scalar_types"
    by (auto simp: classifiable_def split: option.splits)
  then show "\<exists>t. getColumnType row = Inr t \<and> docType t \<in> set scalar_kinds"
  proof cases
    case s
    then show ?thesis using getColumnType_scalar by blast
  next
    case e
    then show ?thesis using getColumnType_enum[of row] by (auto simp: scalar_kinds_def)
  next
    case a
    have d: "data_type (bare_row (strip_array_suffix v)) = strip_array_suffix v"
      by (simp add: bare_row_def)
    obtain t where "getColumnType (bare_row (strip_array_suffix v)) = Inr t"
      using getColumnType_scalar[of "bare_row (strip_array_suffix v)"] a(3) d by auto
    then show ?thesis
      using a getColumnType_array[of row] by (simp add: array_wrap_def scalar_kinds_def)
  qed
next
  assume n: "\<not> classifiable row"
  show "\<exists>e. getColumnType row = Inl e"
  proof (cases "data_type row \<in> set supported_types")
    case False
    then show ?thesis using getColumnType_unhandled by blast
  next
    case True
    then have "data_type row = ''USER-DEFINED'' \<or> data_type row = ''ARRAY''"
      using n by (auto simp: classifiable_def supported_types_def)
    then show ?thesis
    proof
      assume u: "data_type row = ''USER-DEFINED''"
      then have "enum_values row = None" using n by (simp add: classifiable_def)
      then show ?thesis using getColumnType_enum[OF u] by simp
    next
      assume a: "data_type row = ''ARRAY''"
      show ?thesis
      proof (cases "udt_name row")
        case None
        then show ?thesis using getColumnType_array[OF a] by simp
      next
        case (Some v)
        then have "strip_array_suffix v \<notin> set scalar_types"
          using n a by (simp add: classifiable_def)
        then have "\<exists>e. getColumnType (bare_row (strip_array_suffix v)) = Inl e"
          by (subst getColumnType_bare) simp
        then show ?thesis using Some getColumnType_array[OF a] by auto
      qed
    qed
  qed
next
  assume "data_type row \<notin> set supported_types"
  then show "getColumnType row = Inl (UnhandledDataType (data_type row))"
    by (rule getColumnType_unhandled)
next
  assume h: "data_type row = ''ARRAY'' \<and> udt_name row = Some u
    \<and> strip_array_suffix u \<notin> set supported_types"
  then have "getColumnType (bare_row (strip_array_suffix u)) =
      Inl (UnhandledDataType (strip_array_suffix u))"
    by (subst getColumnType_bare) (auto simp: supported_types_def)
  then show "getColumnType row = Inl (UnhandledDataType (strip_array_suffix u))"
    using h getColumnType_array[of row] by simp
qed

text \<open>
  The four parts of C3 at rows that meet their conditions: an integer column, an array of
  integers, a column of type \<^verbatim>\<open>uuid\<close>, and an array of \<^verbatim>\<open>uuid\<close>.
\<close>

theorem classification_outcome_witness:
  "classifiable (bare_row ''integer'')
   \<and> (\<exists>t. getColumnType (bare_row ''integer'') = Inr t \<and> docType t \<in> set scalar_kinds)
   \<and> classifiable ((bare_row ''ARRAY'')\<lparr>udt_name := Some ''integer[]''\<rparr>)
   \<and> (\<exists>t. getColumnType ((bare_row ''ARRAY'')\<lparr>udt_name := Some ''integer[]''\<rparr>) = Inr t
          \<and> docType t \<in> set scalar_kinds)
   \<and> \<not> classifiable (bare_row ''uuid'')
   \<and> ''uuid'' \<notin> set supported_types
   \<and> getColumnType (bare_row ''uuid'') = Inl (UnhandledDataType ''uuid'')
   \<and> getColumnType ((bare_row ''ARRAY'')\<lparr>udt_name := Some ''uuid[]''\<rparr>) =
       Inl (UnhandledDataType ''uuid'')"
  using classification_outcome [of "bare_row ''integer''" "[]"]
    classification_outcome [of "(bare_row ''ARRAY'')\<lparr>udt_name := Some ''integer[]''\<rparr>" "''integer[]''"]
    classification_outcome [of "bare_row ''uuid''" "[]"]
    classification_outcome [of "(bare_row ''ARRAY'')\<lparr>udt_name := Some ''uuid[]''\<rparr>" "''uuid[]''"]
  by (simp add: classifiable_def bare_row_def scalar_types_def supported_types_def
      strip_array_suffix_def ends_with_def)

text \<open>
  C3 as the specification words it fails: \<^verbatim>\<open>ARRAY\<close> is in the supported set and the row
  carries its element type name, and the classification throws.
\<close>

theorem array_of_unsupported_element_fails:
  "data_type ((bare_row ''ARRAY'')\<lparr>udt_name := Some ''uuid[]''\<rparr>) \<in> set supported_types
   \<and> getColumnType ((bare_row ''ARRAY'')\<lparr>udt_name := Some ''uuid[]''\<rparr>) =
       Inl (UnhandledDataType ''uuid'')"
  by (simp add: getColumnType.simps bare_row_def supported_types_def strip_array_suffix_def
      ends_with_def)

text \<open>
  C9. An array whose \<^verbatim>\<open>udt_name\<close> is an element name followed by \<^verbatim>\<open>[]\<close> is classified
  from the classification of that element name: when the element name classifies to the
  storage type \<open>X\<close> and the TypeScript type \<open>T\<close>, the array has the storage type
  \<^verbatim>\<open>ARRAY(DataTypes.X)\<close>, the documentation type \<^verbatim>\<open>Array\<close>, its \<^verbatim>\<open>udt_name\<close> as the
  comment, and the TypeScript type \<open>T\<close> followed by \<^verbatim>\<open>[]\<close>.
\<close>

theorem array_wraps_element_classification:
  assumes "data_type row = ''ARRAY''" and "udt_name row = Some (e @ ''[]'')"
    and "getColumnType (bare_row e) = Inr t"
  shows "getColumnType row =
     Inr \<lparr>dataType = ''ARRAY(DataTypes.'' @ dataType t @ '')'', docType = ''Array'',
          comment = Some (e @ ''[]''), tsType = tsType t @ ''[]''\<rparr>"
  using assms by (simp add: getColumnType_array strip_array_suffix_append array_wrap_def)

text \<open>C9 at \<^verbatim>\<open>integer[]\<close>: the array of integers wraps the classification of \<^verbatim>\<open>integer\<close>.\<close>

theorem array_wraps_element_classification_witness:
  "getColumnType (bare_row ''integer'') =
     Inr \<lparr>dataType = ''INTEGER'', docType = ''number'', comment = None, tsType = ''number''\<rparr>
   \<and> getColumnType ((bare_row ''ARRAY'')\<lparr>udt_name := Some ''integer[]''\<rparr>) =
     Inr \<lparr>dataType = ''ARRAY(DataTypes.INTEGER)'', docType = ''Array'',
          comment = Some ''integer[]'', tsType = ''number[]''\<rparr>"
proof -
  have i: "getColumnType (bare_row ''integer'') =
     Inr \<lparr>dataType = ''INTEGER'', docType = ''number'', comment = None, tsType = ''number''\<rparr>"
    by (simp add: getColumnType_integer bare_row_def)
  have a: "data_type ((bare_row ''ARRAY'')\<lparr>udt_name := Some ''integer[]''\<rparr>) = ''ARRAY''"
    by (simp add: bare_row_def)
  have u: "udt_name ((bare_row ''ARRAY'')\<lparr>udt_name := Some ''integer[]''\<rparr>) =
      Some (''integer'' @ ''[]'')"
    by simp
  show ?thesis
    using array_wraps_element_classification [OF a u i] i by simp
qed

section \<open>Properties of the default chain\<close>

lemma starts_with_nextval:
  assumes "starts_with ''nextval('' d"
  shows "match_string_literal d = None" and "d \<noteq> ''now()''" and "d \<noteq> []"
  using assms by (cases d; auto simp: starts_with_def match_string_literal_def quote_def)+

lemma ends_with_last:
  assumes "ends_with t s" and "t \<noteq> []"
  shows "last s = last t"
proof -
  have "s = take (length s - length t) s @ t"
    using assms(1) by (metis append_take_drop_id ends_with_def)
  then show ?thesis using assms(2) by (metis last_appendR)
qed

text \<open>
  A text that ends with a closing parenthesis does not end with \<^verbatim>\<open>'::jsonb\<close>, so the rule
  of the \<^verbatim>\<open>jsonb\<close> literal, which is not anchored at the start of the text, leaves it.
\<close>

lemma closed_call_not_jsonb:
  assumes "ends_with '')'' d"
  shows "match_cast ''jsonb'' d = None"
proof -
  have l: "last d = CHR '')''" using ends_with_last[OF assms] by simp
  have "\<not> ends_with (quote # ''::jsonb'') d"
  proof
    assume "ends_with (quote # ''::jsonb'') d"
    from ends_with_last[OF this] have "last d = CHR ''b''" by simp
    with l show False by simp
  qed
  then show ?thesis by (simp add: match_cast_def)
qed

lemma nextval_after_jsonb_rule:
  assumes "column_default row = Some d" and "starts_with ''nextval('' d"
    and "match_cast ''jsonb'' d = None"
  shows "resolve_default rx row dt = Inr (DNull, True)"
  using assms starts_with_nextval[OF assms(2)]
  by (simp add: resolve_default_def regexp_subject_def)

text \<open>
  C5. For every \<open>dataType\<close>, a default text that is a call of \<^verbatim>\<open>nextval\<close>, which begins
  with \<^verbatim>\<open>nextval(\<close> and ends with the closing parenthesis of the call, gives
  \<open>isAutoIncrement\<close> and no default value: the two rules that are tried before the test for
  \<^verbatim>\<open>nextval(\<close> leave such a text, and no rule for a literal is tried after it.
\<close>

theorem nextval_is_auto_increment:
  assumes "column_default row = Some d" and "starts_with ''nextval('' d"
    and "ends_with '')'' d"
  shows "resolve_default rx row dt = Inr (DNull, True)"
  using assms(1,2) closed_call_not_jsonb[OF assms(3)] starts_with_nextval[OF assms(2)]
  by (simp add: resolve_default_def regexp_subject_def)

text \<open>C5 at the default of a serial column.\<close>

theorem nextval_is_auto_increment_witness:
  "resolve_default rejecting_engine
     ((bare_row ''integer'')\<lparr>column_default := Some ''nextval('foo_id_seq'::regclass)''\<rparr>)
     ''INTEGER'' = Inr (DNull, True)"
proof -
  have 1: "column_default
      ((bare_row ''integer'')\<lparr>column_default := Some ''nextval('foo_id_seq'::regclass)''\<rparr>) =
      Some ''nextval('foo_id_seq'::regclass)''"
    by simp
  have 2: "starts_with ''nextval('' ''nextval('foo_id_seq'::regclass)''"
    by (simp add: starts_with_def)
  have 3: "ends_with '')'' ''nextval('foo_id_seq'::regclass)''"
    by (simp add: ends_with_def)
  show ?thesis by (rule nextval_is_auto_increment [OF 1 2 3])
qed

lemma resolve_default_string:
  assumes "match_string_literal (regexp_subject (column_default row)) = Some m"
  shows "resolve_default rx row dt = Inr (DText (JSON_stringify m), False)"
  using assms by (simp add: resolve_default_def)

lemma resolve_default_jsonb:
  assumes "match_string_literal (regexp_subject (column_default row)) = None"
    and "match_cast ''jsonb'' (regexp_subject (column_default row)) = Some m"
  shows "resolve_default rx row dt = Inr (DText m, False)"
  using assms by (simp add: resolve_default_def)

lemma resolve_default_rest:
  assumes "match_string_literal (regexp_subject (column_default row)) = None"
    and "match_cast ''jsonb'' (regexp_subject (column_default row)) = None"
  shows "resolve_default rx row dt =
    (if column_default row = Some ''now()'' then Inr (DText ''DataTypes.NOW'', False)
     else if starts_with ''nextval('' (regexp_subject (column_default row)) then Inr (DNull, True)
     else if present (column_default row) \<and> dt = ''BOOLEAN''
       then Inr (DBool (column_default row \<noteq> Some ''false''), False)
     else if present (column_default row) \<and> dt = ''INTEGER''
       then Inr (DNum (parseInt (regexp_subject (column_default row))), False)
     else if present (column_default row) \<and> data_type row = ''ARRAY''
       then Inr (DText ''[]'', False)
     else if data_type row = ''USER-DEFINED'' then
       (case enum_cast_exec rx (regexp_subject (udt_name row))
               (regexp_subject (column_default row)) of
          Inl e \<Rightarrow> Inl e
        | Inr None \<Rightarrow> Inr (DNull, False)
        | Inr (Some m) \<Rightarrow> Inr (DText (JSON_stringify m), False))
     else Inr (DNull, False))"
  using assms by (simp add: resolve_default_def)

lemma enum_cast_exec_plain:
  assumes "plain_pattern u"
  shows "enum_cast_exec rx u s = Inr (match_cast u s)"
  using assms by (simp add: enum_cast_exec_def)

lemma resolve_default_exclusive:
  assumes "resolve_default rx row dt = Inr (dv, ai)" and "ai"
  shows "dv = DNull"
  using assms
  by (auto simp: resolve_default_def split: option.splits if_splits sum.splits)

text \<open>The chain throws only where the pattern of the enum case is built.\<close>

lemma resolve_default_total:
  assumes "plain_pattern (regexp_subject (udt_name row)) \<or> data_type row \<noteq> ''USER-DEFINED''"
  shows "\<exists>v. resolve_default rx row dt = Inr v"
proof (cases "match_string_literal (regexp_subject (column_default row))")
  case (Some m)
  then show ?thesis by (auto simp: resolve_default_string)
next
  case None
  note n1 = this
  show ?thesis
  proof (cases "match_cast ''jsonb'' (regexp_subject (column_default row))")
    case (Some m)
    then show ?thesis using n1 by (auto simp: resolve_default_jsonb)
  next
    case None
    show ?thesis
    proof (cases "data_type row = ''USER-DEFINED''")
      case False
      then show ?thesis by (auto simp: resolve_default_rest[OF n1 None])
    next
      case True
      then have "plain_pattern (regexp_subject (udt_name row))" using assms by simp
      then show ?thesis
        by (cases "match_cast (regexp_subject (udt_name row))
              (regexp_subject (column_default row))")
           (auto simp: resolve_default_rest[OF n1 None] enum_cast_exec_plain)
    qed
  qed
qed

lemma resolve_default_no_rule:
  assumes "plain_pattern (regexp_subject (udt_name row)) \<or> data_type row \<noteq> ''USER-DEFINED''"
    and "\<not> rule_matches rx row dt"
  shows "resolve_default rx row dt = Inr (DNull, False)"
proof -
  from assms(2) have 1: "match_string_literal (regexp_subject (column_default row)) = None"
    and 2: "match_cast ''jsonb'' (regexp_subject (column_default row)) = None"
    and 3: "column_default row \<noteq> Some ''now()''"
    and 4: "\<not> starts_with ''nextval('' (regexp_subject (column_default row))"
    and 5: "\<not> (present (column_default row) \<and> dt = ''BOOLEAN'')"
    and 6: "\<not> (present (column_default row) \<and> dt = ''INTEGER'')"
    and 7: "\<not> (present (column_default row) \<and> data_type row = ''ARRAY'')"
    and 8: "\<not> (data_type row = ''USER-DEFINED'' \<and>
          (case enum_cast_exec rx (regexp_subject (udt_name row))
                  (regexp_subject (column_default row)) of
             Inr (Some m) \<Rightarrow> True
           | _ \<Rightarrow> False))"
    unfolding rule_matches_def by blast+
  show ?thesis
  proof (cases "data_type row = ''USER-DEFINED''")
    case True
    then have p: "plain_pattern (regexp_subject (udt_name row))" using assms(1) by simp
    have "match_cast (regexp_subject (udt_name row)) (regexp_subject (column_default row)) = None"
      using 8 True
      by (cases "match_cast (regexp_subject (udt_name row)) (regexp_subject (column_default row))")
        (simp_all add: enum_cast_exec_plain[OF p])
    then show ?thesis using 3 4 5 6 7 True
      by (simp add: resolve_default_rest[OF 1 2] enum_cast_exec_plain[OF p])
  next
    case False
    then show ?thesis using 3 4 5 6 7
      by (simp add: resolve_default_rest[OF 1 2])
  qed
qed

lemma resolve_default_rule:
  assumes "rule_matches rx row dt"
  shows "resolve_default rx row dt \<noteq> Inr (DNull, False)"
proof (cases "match_string_literal (regexp_subject (column_default row))")
  case (Some m)
  then show ?thesis by (simp add: resolve_default_string)
next
  case None
  note n1 = this
  show ?thesis
  proof (cases "match_cast ''jsonb'' (regexp_subject (column_default row))")
    case (Some m)
    then show ?thesis using n1 by (simp add: resolve_default_jsonb)
  next
    case None
    have r: "column_default row = Some ''now()''
      \<or> starts_with ''nextval('' (regexp_subject (column_default row))
      \<or> (present (column_default row) \<and> dt = ''BOOLEAN'')
      \<or> (present (column_default row) \<and> dt = ''INTEGER'')
      \<or> (present (column_default row) \<and> data_type row = ''ARRAY'')
      \<or> (data_type row = ''USER-DEFINED'' \<and>
          (case enum_cast_exec rx (regexp_subject (udt_name row))
                  (regexp_subject (column_default row)) of
             Inr (Some m) \<Rightarrow> True
           | _ \<Rightarrow> False))"
      using assms n1 None unfolding rule_matches_def by simp
    show ?thesis
    proof (cases "enum_cast_exec rx (regexp_subject (udt_name row))
        (regexp_subject (column_default row))")
      case (Inl e)
      then show ?thesis using r by (auto simp: resolve_default_rest[OF n1 None])
    next
      case (Inr mo)
      then show ?thesis using r by (cases mo) (auto simp: resolve_default_rest[OF n1 None])
    qed
  qed
qed

text \<open>
  The part of C7 that the chain keeps: when the column is not of a user-defined type, or the
  name of its type has no special character of regular expressions, the chain returns for
  every default text, and it returns \<open>no default\<close> exactly when none of its rules takes the
  row.
\<close>

theorem default_resolution_total:
  assumes "plain_pattern (regexp_subject (udt_name row)) \<or> data_type row \<noteq> ''USER-DEFINED''"
  shows "(\<exists>v. resolve_default rx row dt = Inr v)
    \<and> (resolve_default rx row dt = Inr (DNull, False)) = (\<not> rule_matches rx row dt)"
  using resolve_default_total[OF assms] resolve_default_no_rule[OF assms] resolve_default_rule
  by blast

text \<open>
  C7 at a default text without a leading integer, on an integer column: the rule of the
  numbers takes every text that is present, \<^verbatim>\<open>parseInt\<close> gives \<^verbatim>\<open>NaN\<close>, and the column
  gets the line \<^verbatim>\<open>defaultValue: NaN\<close>. The second text is how the catalog shows the default
  \<^verbatim>\<open>-1\<close> of an integer column.
\<close>

theorem integer_default_not_a_number:
  "resolve_default rejecting_engine
     ((bare_row ''integer'')\<lparr>column_default := Some ''abc''\<rparr>) ''INTEGER'' =
     Inr (DNum NaN, False)
   \<and> resolve_default rejecting_engine
       ((bare_row ''integer'')\<lparr>column_default := Some '''-1'::integer''\<rparr>) ''INTEGER'' =
       Inr (DNum NaN, False)
   \<and> (\<forall>rounded. show_default rounded (DNum NaN) = ''NaN'')"
  by (simp add: resolve_default_def regexp_subject_def present_def bare_row_def
     match_string_literal_def match_cast_def ends_with_def starts_with_def quote_def
     parseInt_def is_js_space_def digit_value_def digits_number_def Let_def show_default_def)

lemma lt_10:
  fixes d :: nat
  assumes "d < 10"
  shows "d = 0 \<or> d = 1 \<or> d = 2 \<or> d = 3 \<or> d = 4 \<or> d = 5 \<or> d = 6 \<or> d = 7 \<or> d = 8 \<or> d = 9"
  using assms by arith

lemma digit_value_digit_char:
  fixes d :: nat
  assumes "d < 10"
  shows "digit_value 10 (digit_char d) = Some d"
  using lt_10[OF assms]
  by (elim disjE) (simp_all add: digit_value_def digit_char_def)


lemma digit_not_space:
  assumes "digit_value 10 c = Some d"
  shows "\<not> is_js_space c" and "c \<noteq> CHR ''-''" and "c \<noteq> CHR ''+''"
    and "c \<noteq> CHR ''x''" and "c \<noteq> CHR ''X''"
  using assms by (auto simp: is_js_space_def digit_value_def)

lemma show_nat_digits:
  "show_nat n \<noteq> []
   \<and> list_all (\<lambda>c. digit_value 10 c \<noteq> None) (show_nat n)
   \<and> digits_number 10 (map (the \<circ> digit_value 10) (show_nat n)) = n"
proof (induction n rule: show_nat.induct)
  case (1 n)
  show ?case
  proof (cases "n < 10")
    case True
    then show ?thesis
      by (subst (1 2 3) show_nat.simps) (simp add: digit_value_digit_char digits_number_def)
  next
    case False
    have m: "n mod 10 < 10" by simp
    have s: "show_nat n = show_nat (n div 10) @ [digit_char (n mod 10)]"
      using False by (subst show_nat.simps) simp
    show ?thesis
      using 1[OF False] digit_value_digit_char[OF m]
      by (simp add: s digits_number_def)
  qed
qed

lemma digits_prefix_append:
  assumes "list_all (\<lambda>c. digit_value 10 c \<noteq> None) xs"
  shows "digits_prefix 10 (xs @ ys) = map (the \<circ> digit_value 10) xs @ digits_prefix 10 ys"
  using assms by (induction xs) auto

lemma digits_prefix_stop:
  assumes "rest = [] \<or> digit_value 10 (hd rest) = None"
  shows "digits_prefix 10 rest = []"
  using assms by (cases rest) auto


lemma no_hex_prefix:
  assumes "xs \<noteq> []" and "list_all (\<lambda>c. digit_value 10 c \<noteq> None) xs"
    and "rest = [] \<or> (hd rest \<noteq> CHR ''x'' \<and> hd rest \<noteq> CHR ''X'')"
  shows "\<not> starts_with ''0x'' (xs @ rest) \<and> \<not> starts_with ''0X'' (xs @ rest)"
proof -
  obtain c cs where x: "xs = c # cs" using assms(1) by (cases xs) auto
  show ?thesis
  proof (cases cs)
    case Nil
    then show ?thesis
      using x assms(3) by (cases rest) (auto simp: starts_with_def)
  next
    case (Cons e es)
    then obtain d where "digit_value 10 e = Some d" using assms(2) x by auto
    then have "e \<noteq> CHR ''x''" "e \<noteq> CHR ''X''" using digit_not_space by blast+
    then show ?thesis
      using x Cons by (auto simp: starts_with_def)
  qed
qed

text \<open>
  What \<^verbatim>\<open>parseInt\<close> reads: a text that starts with the decimal numeral of \<open>n\<close>, at most
  2^53, followed by no further digit and by no \<^verbatim>\<open>x\<close>, is read as \<open>n\<close>.
\<close>

lemma parseInt_show_nat:
  assumes "rest = [] \<or> (digit_value 10 (hd rest) = None \<and> hd rest \<noteq> CHR ''x'' \<and> hd rest \<noteq> CHR ''X'')"
    and "n \<le> 2 ^ 53"
  shows "parseInt (show_nat n @ rest) = Number (int n)"
proof -
  have "int n \<le> int (2 ^ 53)" using assms(2) by (simp only: of_nat_le_iff)
  then have b: "js_integer (int n) = Number (int n)" by (simp add: js_integer_def)
  let ?xs = "show_nat n"
  have ne: "?xs \<noteq> []" and all: "list_all (\<lambda>c. digit_value 10 c \<noteq> None) ?xs"
    and num: "digits_number 10 (map (the \<circ> digit_value 10) ?xs) = n"
    using show_nat_digits[of n] by simp_all
  obtain c cs where x: "?xs = c # cs" using ne by (cases ?xs) auto
  then obtain d where d: "digit_value 10 c = Some d" using all by auto
  have t: "dropWhile is_js_space (?xs @ rest) = ?xs @ rest"
    using x digit_not_space(1)[OF d] by simp
  have s: "\<not> starts_with ''-'' (?xs @ rest)" "\<not> starts_with ''+'' (?xs @ rest)"
    using x digit_not_space(2,3)[OF d] by (auto simp: starts_with_def)
  have h: "\<not> starts_with ''0x'' (?xs @ rest)" "\<not> starts_with ''0X'' (?xs @ rest)"
    using no_hex_prefix[OF ne all] assms(1) by blast+
  have p: "digits_prefix 10 (?xs @ rest) = map (the \<circ> digit_value 10) ?xs"
    using digits_prefix_append[OF all, of rest] digits_prefix_stop[of rest] assms(1) by auto
  have "map (the \<circ> digit_value 10) ?xs \<noteq> []" using ne by simp
  then show ?thesis
    unfolding parseInt_def Let_def t using s h p num b by simp
qed

lemma parseInt_beyond_exact:
  "parseInt ''9007199254740993'' = Rounded 9007199254740993"
  by (simp add: parseInt_def is_js_space_def starts_with_def digit_value_def digits_number_def
      js_integer_def Let_def)

text \<open>A text that starts with a decimal numeral is left by the rules for texts.\<close>

lemma numeral_not_special:
  shows "show_nat n @ rest \<noteq> []"
    and "match_string_literal (show_nat n @ rest) = None"
    and "show_nat n @ rest \<noteq> ''now()''"
    and "\<not> starts_with ''nextval('' (show_nat n @ rest)"
proof -
  have ne: "show_nat n \<noteq> []"
    and all: "list_all (\<lambda>c. digit_value 10 c \<noteq> None) (show_nat n)"
    using show_nat_digits[of n] by simp_all
  obtain c cs where x: "show_nat n = c # cs" using ne by (cases "show_nat n") auto
  then obtain d where d: "digit_value 10 c = Some d" using all by auto
  have q: "c \<noteq> quote" "c \<noteq> CHR ''n''"
    using d by (auto simp: digit_value_def quote_def)
  show "show_nat n @ rest \<noteq> []" using ne by simp
  show "match_string_literal (show_nat n @ rest) = None"
    using q(1) by (simp add: x match_string_literal_def)
  show "show_nat n @ rest \<noteq> ''now()''" using q(2) by (simp add: x)
  show "\<not> starts_with ''nextval('' (show_nat n @ rest)"
    using q(2) by (simp add: x starts_with_def)
qed

text \<open>
  C2, as the code has it. On a column of type \<^verbatim>\<open>integer\<close> or \<^verbatim>\<open>smallint\<close>, whose
  \<open>dataType\<close> is \<^verbatim>\<open>INTEGER\<close>, a default text that starts with the decimal numeral of a
  number \<open>n\<close> of at most 2^53, goes on with no further digit and with no \<^verbatim>\<open>x\<close>, and does
  not end in a quoted literal cast to \<^verbatim>\<open>jsonb\<close>, resolves to the number \<open>n\<close>.
\<close>

theorem integer_default_is_number_read:
  assumes "data_type row = ''integer'' \<or> data_type row = ''smallint''"
    and "column_default row = Some (show_nat n @ rest)"
    and "n \<le> 2 ^ 53"
    and "rest = [] \<or> (digit_value 10 (hd rest) = None \<and> hd rest \<noteq> CHR ''x'' \<and> hd rest \<noteq> CHR ''X'')"
    and "match_cast ''jsonb'' (show_nat n @ rest) = None"
  shows "\<exists>td. getColumnType row = Inr td \<and> dataType td = ''INTEGER''
     \<and> resolve_default rx row (dataType td) = Inr (DNum (Number (int n)), False)"
  using assms(1,2,5) getColumnType_integer[of row] numeral_not_special[of n rest]
    parseInt_show_nat[OF assms(4,3)]
  by (simp add: resolve_default_def regexp_subject_def present_def)

text \<open>
  C2 at a \<^verbatim>\<open>smallint\<close> column with the default \<^verbatim>\<open>42\<close>, and at an \<^verbatim>\<open>integer\<close> column
  whose default goes on after the numeral.
\<close>

theorem integer_default_is_number_read_witness:
  "(\<exists>td. getColumnType ((bare_row ''smallint'')\<lparr>column_default := Some ''42''\<rparr>) = Inr td
     \<and> dataType td = ''INTEGER''
     \<and> resolve_default rejecting_engine
         ((bare_row ''smallint'')\<lparr>column_default := Some ''42''\<rparr>) (dataType td) =
         Inr (DNum (Number 42), False))
   \<and> (\<exists>td. getColumnType ((bare_row ''integer'')\<lparr>column_default := Some ''7 + 1''\<rparr>) = Inr td
     \<and> dataType td = ''INTEGER''
     \<and> resolve_default rejecting_engine
         ((bare_row ''integer'')\<lparr>column_default := Some ''7 + 1''\<rparr>) (dataType td) =
         Inr (DNum (Number 7), False))"
proof -
  have s42: "show_nat 42 = ''42''" and s7: "show_nat 7 = ''7''"
    by (simp_all add: show_nat.simps digit_char_def)
  have b: "(42::nat) \<le> 2 ^ 53" "(7::nat) \<le> 2 ^ 53" by simp_all
  have a1: "data_type ((bare_row ''smallint'')\<lparr>column_default := Some ''42''\<rparr>) = ''integer''
      \<or> data_type ((bare_row ''smallint'')\<lparr>column_default := Some ''42''\<rparr>) = ''smallint''"
    by (simp add: bare_row_def)
  have a2: "column_default ((bare_row ''smallint'')\<lparr>column_default := Some ''42''\<rparr>) =
      Some (show_nat 42 @ [])"
    by (simp add: s42)
  have a4: "[] = [] \<or> (digit_value 10 (hd []) = None \<and> hd [] \<noteq> CHR ''x'' \<and> hd [] \<noteq> CHR ''X'')"
    by simp
  have a5: "match_cast ''jsonb'' (show_nat 42 @ []) = None"
    by (simp add: s42 match_cast_def ends_with_def)
  have c1: "data_type ((bare_row ''integer'')\<lparr>column_default := Some ''7 + 1''\<rparr>) = ''integer''
      \<or> data_type ((bare_row ''integer'')\<lparr>column_default := Some ''7 + 1''\<rparr>) = ''smallint''"
    by (simp add: bare_row_def)
  have c2: "column_default ((bare_row ''integer'')\<lparr>column_default := Some ''7 + 1''\<rparr>) =
      Some (show_nat 7 @ '' + 1'')"
    by (simp add: s7)
  have c4: "'' + 1'' = [] \<or> (digit_value 10 (hd '' + 1'') = None \<and> hd '' + 1'' \<noteq> CHR ''x''
      \<and> hd '' + 1'' \<noteq> CHR ''X'')"
    by (simp add: digit_value_def)
  have c5: "match_cast ''jsonb'' (show_nat 7 @ '' + 1'') = None"
    by (simp add: s7 match_cast_def ends_with_def)
  show ?thesis
    using integer_default_is_number_read [OF a1 a2 b(1) a4 a5, of rejecting_engine]
      integer_default_is_number_read [OF c1 c2 b(2) c4 c5, of rejecting_engine]
    by simp
qed

text \<open>
  C2 as the specification words it fails on \<^verbatim>\<open>numeric\<close>: the \<open>dataType\<close> of a numeric
  column is \<^verbatim>\<open>DOUBLE\<close>, which the rule of the numbers does not take, and the default
  \<^verbatim>\<open>0\<close> resolves to no default.
\<close>

theorem numeric_default_counterexample:
  "getColumnType ((bare_row ''numeric'')\<lparr>column_default := Some ''0''\<rparr>) =
     Inr \<lparr>dataType = ''DOUBLE'', docType = ''number'', comment = None, tsType = ''number''\<rparr>
   \<and> resolve_default rejecting_engine
       ((bare_row ''numeric'')\<lparr>column_default := Some ''0''\<rparr>) ''DOUBLE'' =
       Inr (DNull, False)"
  by (simp add: getColumnType_numeric resolve_default_def regexp_subject_def present_def
      bare_row_def match_string_literal_def match_cast_def ends_with_def starts_with_def quote_def)

section \<open>Properties of the columns\<close>

lemma build_column_Some:
  assumes "build_column cfg rx row = Inr (Some cd)"
  shows "\<exists>td. getColumnType row = Inr td \<and> typeData cd = td
     \<and> resolve_default rx row (dataType td) = Inr (defaultValue cd, autoIncrement cd)
     \<and> isPrimaryKey cd = (Some ''PRIMARY KEY'' \<in> set (keys row))
     \<and> (includeForeignKeys cfg \<or> Some ''FOREIGN KEY'' \<notin> set (keys row))"
  using assms
  by (auto simp: build_column_def split: if_splits sum.splits prod.splits)

lemma build_column_foreign_key:
  assumes "\<not> includeForeignKeys cfg" and "Some ''FOREIGN KEY'' \<in> set (keys row)"
  shows "build_column cfg rx row = Inr None"
  using assms by (simp add: build_column_def)

lemma build_columns_from_rows:
  assumes "build_columns cfg rx rows = Inr cds" and "cd \<in> set cds"
  shows "\<exists>row \<in> set rows. build_column cfg rx row = Inr (Some cd)"
  using assms
proof (induction rows arbitrary: cds)
  case Nil
  then show ?case by simp
next
  case (Cons row rows)
  from Cons.prems(1) obtain c cs where c: "build_column cfg rx row = Inr c"
    and cs: "build_columns cfg rx rows = Inr cs"
    and eq: "cds = (case c of None \<Rightarrow> cs | Some x \<Rightarrow> x # cs)"
    by (auto split: sum.splits)
  show ?case
  proof (cases "cd \<in> set cs")
    case True
    then show ?thesis using Cons.IH[OF cs] by auto
  next
    case False
    then have "c = Some cd" using eq Cons.prems(2) by (cases c) auto
    then show ?thesis using c by simp
  qed
qed

lemma generateTableDefinition_columns:
  assumes "generateTableDefinition cfg rx obj t rows = Inr f"
  shows "build_columns cfg rx rows = Inr (columns f)"
  using assms
  by (auto simp: generateTableDefinition_def split: sum.splits if_splits js_property.splits)

lemma serial_column:
  "build_column example_config rejecting_engine
     ((bare_row ''integer'')\<lparr>column_name := ''id'',
        column_default := Some ''nextval('foo_id_seq'::regclass)'',
        is_nullable := ''NO'', keys := [Some ''PRIMARY KEY'']\<rparr>) =
   Inr (Some \<lparr>name = ''id'', field = ''id'',
      typeData = \<lparr>dataType = ''INTEGER'', docType = ''number'', comment = None,
                  tsType = ''number''\<rparr>,
      typeComment = ''integer'', isPrimaryKey = True, allowNull = False,
      autoIncrement = True, defaultValue = DNull\<rparr>)"
  by (simp add: build_column_def example_config_def bare_row_def getColumnType_integer
      resolve_default_def regexp_subject_def match_string_literal_def match_cast_def
      ends_with_def starts_with_def quote_def comment_or_def)

text \<open>
  C6. A column that the builder produces has a default value and is not auto-incrementing,
  or is auto-incrementing and has no default value, or has neither; it never has both.
\<close>

theorem default_or_auto_increment:
  assumes "build_column cfg rx row = Inr (Some cd)"
  shows "(defaultValue cd \<noteq> DNull \<and> \<not> autoIncrement cd)
     \<or> (defaultValue cd = DNull \<and> autoIncrement cd)
     \<or> (defaultValue cd = DNull \<and> \<not> autoIncrement cd)"
proof -
  obtain td :: type_data
    where "resolve_default rx row (dataType td) = Inr (defaultValue cd, autoIncrement cd)"
    using build_column_Some[OF assms] by blast
  then show ?thesis using resolve_default_exclusive by blast
qed

text \<open>C6 at the key column of a table with a sequence.\<close>

theorem default_or_auto_increment_witness:
  "\<exists>cd. build_column example_config rejecting_engine
       ((bare_row ''integer'')\<lparr>column_name := ''id'',
          column_default := Some ''nextval('foo_id_seq'::regclass)'',
          is_nullable := ''NO'', keys := [Some ''PRIMARY KEY'']\<rparr>) = Inr (Some cd)
     \<and> defaultValue cd = DNull \<and> autoIncrement cd"
  using default_or_auto_increment [OF serial_column] serial_column by simp

text \<open>
  C10. When foreign keys are not included, a column whose constraint types contain
  \<^verbatim>\<open>FOREIGN KEY\<close> is omitted, whatever else they contain; so the file of a table in which
  every column of the primary key is a foreign key has no column that is a primary key.
\<close>

theorem foreign_key_columns_omitted:
  assumes "\<not> includeForeignKeys cfg"
  shows "(Some ''FOREIGN KEY'' \<in> set (keys row) \<longrightarrow> build_column cfg rx row = Inr None)
    \<and> ((\<forall>r \<in> set rows. Some ''PRIMARY KEY'' \<in> set (keys r) \<longrightarrow>
            Some ''FOREIGN KEY'' \<in> set (keys r))
         \<and> generateTableDefinition cfg rx obj t rows = Inr f \<longrightarrow>
       (\<forall>cd \<in> set (columns f). \<not> isPrimaryKey cd))"
proof (intro conjI impI ballI)
  assume "Some ''FOREIGN KEY'' \<in> set (keys row)"
  then show "build_column cfg rx row = Inr None"
    using assms by (rule build_column_foreign_key[rotated])
next
  fix cd
  assume h: "(\<forall>r \<in> set rows. Some ''PRIMARY KEY'' \<in> set (keys r) \<longrightarrow>
            Some ''FOREIGN KEY'' \<in> set (keys r))
         \<and> generateTableDefinition cfg rx obj t rows = Inr f"
    and cd: "cd \<in> set (columns f)"
  then obtain r where r: "r \<in> set rows" "build_column cfg rx r = Inr (Some cd)"
    using build_columns_from_rows[OF generateTableDefinition_columns] by blast
  then have "Some ''FOREIGN KEY'' \<notin> set (keys r)"
    using build_column_foreign_key[OF assms, of r rx] by auto
  then have "Some ''PRIMARY KEY'' \<notin> set (keys r)" using h r(1) by blast
  then show "\<not> isPrimaryKey cd" using build_column_Some[OF r(2)] by simp
qed

text \<open>
  C10 at a pivot table of two columns, each a foreign key in the primary key: both columns
  are omitted and the file has no column.
\<close>

theorem foreign_key_columns_omitted_witness:
  "\<not> includeForeignKeys example_config
   \<and> list_all (\<lambda>r. Some ''PRIMARY KEY'' \<in> set (keys r) \<and> Some ''FOREIGN KEY'' \<in> set (keys r))
        pivot_rows
   \<and> list_all (\<lambda>r. build_column example_config rejecting_engine r = Inr None) pivot_rows
   \<and> (\<exists>f. generateTableDefinition example_config rejecting_engine Map.empty ''post_tag''
            pivot_rows = Inr f
        \<and> columns f = [])"
proof -
  have n: "\<not> includeForeignKeys example_config" by (simp add: example_config_def)
  have g: "\<exists>f. generateTableDefinition example_config rejecting_engine Map.empty ''post_tag''
            pivot_rows = Inr f
        \<and> columns f = []"
    by (simp add: generateTableDefinition_def build_column_def pivot_rows_def example_config_def
        bare_row_def)
  show ?thesis
    using foreign_key_columns_omitted [OF n, of "pivot_rows ! 0" rejecting_engine pivot_rows
        Map.empty "''post_tag''"]
      foreign_key_columns_omitted [OF n, of "pivot_rows ! 1" rejecting_engine pivot_rows
        Map.empty "''post_tag''"]
      n g
    by (simp add: pivot_rows_def bare_row_def)
qed

section \<open>Properties of the names\<close>

text \<open>
  A model name is a table name in Pascal case. Such a name is never a member of
  \<^verbatim>\<open>Object.prototype\<close>: it does not start with a lower-case letter, and none of its
  underscores is followed by one.
\<close>

lemma toUpperCase_char_not_lower: "toUpperCase_char c \<notin> set lower_letters"
  by (auto simp: toUpperCase_char_def lower_letters_def upper_letters_def split: option.splits if_splits)

lemma toUpperCase_char_underscore: "(toUpperCase_char c = CHR ''_'') = (c = CHR ''_'')"
  by (auto simp: toUpperCase_char_def lower_letters_def upper_letters_def split: option.splits if_splits)

lemma lower_is_letter: "c \<in> set lower_letters \<Longrightarrow> is_letter c"
  by (simp add: is_letter_def)

lemma no_underscore_lower_Cons:
  assumes "x \<noteq> CHR ''_''" and "no_underscore_lower ys"
  shows "no_underscore_lower (x # ys)"
  using assms by (cases ys) simp_all

lemma toCamelCase_head:
  assumes "toCamelCase (d # cs) = x # ys"
  shows "x = d \<or> x \<notin> set lower_letters"
  using assms
  by (cases cs) (auto simp: toUpperCase_char_not_lower split: if_splits)

lemma toCamelCase_no_underscore_lower: "no_underscore_lower (toCamelCase s)"
proof (induction s rule: toCamelCase.induct)
  case 1
  then show ?case by simp
next
  case (2 c)
  then show ?case by simp
next
  case (3 c d cs)
  show ?case
  proof (cases "c = CHR ''_'' \<and> is_letter d")
    case True
    then have "d \<noteq> CHR ''_''"
      by (auto simp: is_letter_def lower_letters_def upper_letters_def)
    then have "toUpperCase_char d \<noteq> CHR ''_''"
      by (simp add: toUpperCase_char_underscore)
    then have "no_underscore_lower (toUpperCase_char d # toCamelCase cs)"
      using 3(1) True by (simp add: no_underscore_lower_Cons)
    then show ?thesis using True by simp
  next
    case False
    then have ih: "no_underscore_lower (toCamelCase (d # cs))" using 3(2) by simp
    have "toCamelCase (d # cs) \<noteq> []"
      by (cases cs) auto
    then obtain x ys where xy: "toCamelCase (d # cs) = x # ys"
      by (cases "toCamelCase (d # cs)") auto
    have "\<not> (c = CHR ''_'' \<and> x \<in> set lower_letters)"
      using False toCamelCase_head[OF xy] lower_is_letter by auto
    then have "no_underscore_lower (c # x # ys)" using ih xy by simp
    moreover have "toCamelCase (c # d # cs) = c # x # ys" using False xy by auto
    ultimately show ?thesis by simp
  qed
qed

lemma toPascalCase_no_underscore_lower: "no_underscore_lower (toPascalCase s)"
proof (cases "toCamelCase s")
  case Nil
  then show ?thesis by (simp add: toPascalCase_def)
next
  case (Cons c cs)
  have "no_underscore_lower (c # cs)" using toCamelCase_no_underscore_lower[of s] Cons by simp
  then have "no_underscore_lower (toUpperCase_char c # cs)"
    by (cases cs) (simp_all add: toUpperCase_char_underscore)
  then show ?thesis using Cons by (simp add: toPascalCase_def)
qed

lemma toPascalCase_head:
  assumes "toPascalCase s = c # cs"
  shows "c \<notin> set lower_letters"
  using assms
  by (auto simp: toPascalCase_def toUpperCase_char_not_lower split: list.splits)

lemma toPascalCase_not_inherited: "\<not> inherited (toPascalCase s)"
proof
  assume "inherited (toPascalCase s)"
  then have m: "toPascalCase s \<in> set object_prototype_names" by (simp add: inherited_def)
  have n: "no_underscore_lower (toPascalCase s)" by (rule toPascalCase_no_underscore_lower)
  have h: "\<And>c cs. toPascalCase s = c # cs \<Longrightarrow> c \<notin> set lower_letters"
    by (rule toPascalCase_head)
  from m consider "toPascalCase s = ''constructor''" | "toPascalCase s = ''__defineGetter__''"
    | "toPascalCase s = ''__defineSetter__''" | "toPascalCase s = ''hasOwnProperty''"
    | "toPascalCase s = ''__lookupGetter__''" | "toPascalCase s = ''__lookupSetter__''"
    | "toPascalCase s = ''isPrototypeOf''" | "toPascalCase s = ''propertyIsEnumerable''"
    | "toPascalCase s = ''toString''" | "toPascalCase s = ''valueOf''"
    | "toPascalCase s = ''__proto__''" | "toPascalCase s = ''toLocaleString''"
    by (auto simp: object_prototype_names_def)
  then show False
  proof cases
    case 1 then show ?thesis using h[of "CHR ''c''"] by (simp add: lower_letters_def)
  next
    case 2 then show ?thesis using n by (simp add: lower_letters_def)
  next
    case 3 then show ?thesis using n by (simp add: lower_letters_def)
  next
    case 4 then show ?thesis using h[of "CHR ''h''"] by (simp add: lower_letters_def)
  next
    case 5 then show ?thesis using n by (simp add: lower_letters_def)
  next
    case 6 then show ?thesis using n by (simp add: lower_letters_def)
  next
    case 7 then show ?thesis using h[of "CHR ''i''"] by (simp add: lower_letters_def)
  next
    case 8 then show ?thesis using h[of "CHR ''p''"] by (simp add: lower_letters_def)
  next
    case 9 then show ?thesis using h[of "CHR ''t''"] by (simp add: lower_letters_def)
  next
    case 10 then show ?thesis using h[of "CHR ''v''"] by (simp add: lower_letters_def)
  next
    case 11 then show ?thesis using n by (simp add: lower_letters_def)
  next
    case 12 then show ?thesis using h[of "CHR ''t''"] by (simp add: lower_letters_def)
  qed
qed

section \<open>Properties of the associations\<close>

lemma get_property_cases:
  "get_property obj k = (case obj k of Some v \<Rightarrow> Own v | None \<Rightarrow> if inherited k then Inherited else Undefined)"
  by (simp add: get_property_def inherited_def)

lemma push_association_own:
  assumes "obj k = Some xs"
  shows "push_association obj k a = Inr (obj(k \<mapsto> xs @ [a]))"
  using assms by (simp add: push_association_def get_property_def)

lemma push_association_none:
  assumes "obj k = None"
  shows "push_association obj k a = Inl TypeError"
  using assms by (simp add: push_association_def get_property_def)

lemma ensure_list_apply:
  "ensure_list obj k k' =
     (if k' = k \<and> obj k = None \<and> \<not> inherited k then Some [] else obj k')"
  by (auto simp: ensure_list_def get_property_cases split: option.splits)

text \<open>Pushing under a name after making sure of its list: it fails for an inherited name only.\<close>

lemma ensure_push:
  "push_association (ensure_list obj k) k a =
     (if obj k = None \<and> inherited k then Inl TypeError
      else Inr ((ensure_list obj k)(k \<mapsto> the_list obj k @ [a])))"
  by (cases "obj k")
     (auto simp: push_association_def get_property_cases ensure_list_def the_list_def)

lemma register_row_belongsTo:
  assumes "pivot_of row = None"
  shows "register_row row obj =
     push_association (ensure_list obj (table_name row)) (table_name row)
       \<lparr>manyToMany = False, model = toPascalCase (reference_table row),
        fileName = reference_table row\<rparr>"
  using assms by (simp add: register_row_def)

lemma register_row_pivot:
  assumes "pivot_of row = Some ot"
  shows "register_row row obj =
     (case push_association (ensure_list (ensure_list obj ot) (reference_table row)) ot
              \<lparr>manyToMany = True, model = toPascalCase (reference_table row),
               fileName = reference_table row\<rparr> of
        Inl e \<Rightarrow> Inl e
      | Inr obj' \<Rightarrow>
          push_association obj' (reference_table row)
            \<lparr>manyToMany = True, model = toPascalCase ot, fileName = ot\<rparr>)"
  using assms by (simp add: register_row_def)

text \<open>What a row that is registered leaves under each name.\<close>

lemma register_row_the_list:
  assumes "register_row row obj = Inr obj'"
  shows "the_list obj' t = the_list obj t @ registered_for t row"
    and "obj' t = (if registered_for t row = [] then obj t else Some (the_list obj t @ registered_for t row))"
proof -
  show a: "obj' t = (if registered_for t row = [] then obj t else Some (the_list obj t @ registered_for t row))"
  proof (cases "pivot_of row")
    case None
    then have "push_association (ensure_list obj (table_name row)) (table_name row)
       \<lparr>manyToMany = False, model = toPascalCase (reference_table row),
        fileName = reference_table row\<rparr> = Inr obj'"
      using assms register_row_belongsTo by simp
    then show ?thesis using None
      by (auto simp: ensure_push registered_for_def ensure_list_apply the_list_def split: if_splits)
  next
    case (Some ot)
    note ot = this
    let ?r = "reference_table row"
    let ?o1 = "ensure_list (ensure_list obj ot) ?r"
    from assms obtain o2 where
      p1: "push_association ?o1 ot \<lparr>manyToMany = True, model = toPascalCase ?r, fileName = ?r\<rparr> = Inr o2"
      and p2: "push_association o2 ?r \<lparr>manyToMany = True, model = toPascalCase ot, fileName = ot\<rparr> = Inr obj'"
      by (auto simp: register_row_pivot[OF ot] split: sum.splits)
    from p1 obtain xs where xs: "?o1 ot = Some xs"
      and o2: "o2 = ?o1(ot \<mapsto> xs @ [\<lparr>manyToMany = True, model = toPascalCase ?r, fileName = ?r\<rparr>])"
      by (cases "?o1 ot") (auto simp: push_association_none push_association_own)
    from p2 obtain ys where ys: "o2 ?r = Some ys"
      and o3: "obj' = o2(?r \<mapsto> ys @ [\<lparr>manyToMany = True, model = toPascalCase ot, fileName = ot\<rparr>])"
      by (cases "o2 ?r") (auto simp: push_association_none push_association_own)
    have xs': "xs = the_list obj ot"
      using xs by (auto simp: ensure_list_apply the_list_def split: if_splits)
    have ys': "ys = the_list obj ?r @ (if ?r = ot then [\<lparr>manyToMany = True, model = toPascalCase ?r, fileName = ?r\<rparr>] else [])"
      using ys o2 xs' by (auto simp: ensure_list_apply the_list_def split: if_splits)
    show ?thesis
      using ot o3 o2 xs' ys'
      by (auto simp: registered_for_def ensure_list_apply the_list_def split: if_splits)
  qed
  then show "the_list obj' t = the_list obj t @ registered_for t row"
    by (simp add: the_list_def)
qed

lemma generateAssociations_the_list:
  assumes "generateAssociations ind rows obj = Inr (codes, obj')"
  shows "codes = map (relation_code ind) rows
    \<and> the_list obj' t = the_list obj t @ concat (map (registered_for t) rows)
    \<and> obj' t = (if concat (map (registered_for t) rows) = [] then obj t
         else Some (the_list obj t @ concat (map (registered_for t) rows)))"
  using assms
proof (induction rows arbitrary: obj codes)
  case Nil
  then show ?case by (simp add: the_list_def)
next
  case (Cons row rows)
  from Cons.prems obtain o1 cs where r: "register_row row obj = Inr o1"
    and g: "generateAssociations ind rows o1 = Inr (cs, obj')"
    and c: "codes = relation_code ind row # cs"
    by (auto split: sum.splits prod.splits)
  note ih = Cons.IH[OF g]
  note l = register_row_the_list[OF r, of t]
  show ?case
    using ih l c by (auto simp: the_list_def)
qed

text \<open>
  What a pivot row registers when neither of its two referenced tables has an inherited name:
  an entry for each under the other, and a \<^verbatim>\<open>belongsToMany\<close> statement through the
  owning table.
\<close>

lemma pivot_row_registers_pair:
  assumes "pivot_of row = Some ot"
    and "\<not> inherited ot" and "\<not> inherited (reference_table row)"
  shows "\<exists>obj'. register_row row obj = Inr obj'
     \<and> (\<forall>t. the_list obj' t = the_list obj t
           @ (if t = ot then [\<lparr>manyToMany = True, model = toPascalCase (reference_table row),
                                fileName = reference_table row\<rparr>] else [])
           @ (if t = reference_table row then [\<lparr>manyToMany = True, model = toPascalCase ot,
                                fileName = ot\<rparr>] else []))
     \<and> relation_of row = BelongsToMany (toPascalCase (reference_table row)) (toPascalCase ot)
           (toPascalCase (table_name row)) (fk_column_name row)"
proof -
  let ?r = "reference_table row"
  let ?o1 = "ensure_list (ensure_list obj ot) ?r"
  have "?o1 ot \<noteq> None" using assms(2) by (auto simp: ensure_list_apply)
  then obtain xs where xs: "?o1 ot = Some xs" by auto
  let ?o2 = "?o1(ot \<mapsto> xs @ [\<lparr>manyToMany = True, model = toPascalCase ?r, fileName = ?r\<rparr>])"
  have "?o2 ?r \<noteq> None" using assms(3) by (auto simp: ensure_list_apply)
  then obtain ys where ys: "?o2 ?r = Some ys" by auto
  have "register_row row obj = Inr (?o2(?r \<mapsto> ys @ [\<lparr>manyToMany = True, model = toPascalCase ot, fileName = ot\<rparr>]))"
    using xs ys by (simp add: register_row_pivot[OF assms(1)] push_association_own)
  then obtain obj' where r: "register_row row obj = Inr obj'" by blast
  show ?thesis
    using r register_row_the_list(1)[OF r] assms(1)
    by (simp add: registered_for_def relation_of_def)
qed

text \<open>
  The two rows of the pivot table \<^verbatim>\<open>post_tag\<close>: each of \<^verbatim>\<open>post\<close> and \<^verbatim>\<open>tag\<close> gets
  the other as a many-to-many entry, once from each row; nothing is registered under
  \<^verbatim>\<open>post_tag\<close>; and the two statements are \<^verbatim>\<open>belongsToMany\<close> through \<^verbatim>\<open>PostTag\<close>.
\<close>

lemma post_tag_pair:
  "generateAssociations [CHR 0x09] [post_tag_post, post_tag_tag] Map.empty =
     Inr (map (relation_code [CHR 0x09]) [post_tag_post, post_tag_tag],
          [''tag'' \<mapsto> [\<lparr>manyToMany = True, model = ''Post'', fileName = ''post''\<rparr>,
                      \<lparr>manyToMany = True, model = ''Post'', fileName = ''post''\<rparr>],
           ''post'' \<mapsto> [\<lparr>manyToMany = True, model = ''Tag'', fileName = ''tag''\<rparr>,
                       \<lparr>manyToMany = True, model = ''Tag'', fileName = ''tag''\<rparr>]])"
  and "map relation_of [post_tag_post, post_tag_tag] =
     [BelongsToMany ''Post'' ''Tag'' ''PostTag'' ''post_id'',
      BelongsToMany ''Tag'' ''Post'' ''PostTag'' ''tag_id'']"
  by (simp_all add: post_tag_post_def post_tag_tag_def example_fk_def register_row_def
      pivot_of_def push_association_def ensure_list_def get_property_def
      object_prototype_names_def relation_of_def toPascalCase_def toUpperCase_char_def
      lower_letters_def upper_letters_def is_letter_def fun_upd_twist)

text \<open>
  C1 at a row of a pivot table between \<^verbatim>\<open>driver\<close> and \<^verbatim>\<open>constructor\<close>. The pivot
  field is set; \<^verbatim>\<open>associations['constructor']\<close> is the inherited function, so no list is
  made for it and \<^verbatim>\<open>push\<close> throws: nothing is registered and the run ends.
\<close>

theorem inherited_name_throws:
  "pivot_of driver_constructor = Some ''constructor''
   \<and> register_row driver_constructor Map.empty = Inl TypeError
   \<and> generateAssociations [CHR 0x09] [driver_constructor] Map.empty = Inl TypeError"
  by (simp add: driver_constructor_def example_fk_def pivot_of_def register_row_def
      push_association_def ensure_list_def get_property_def object_prototype_names_def)

section \<open>Properties of the association blocks\<close>

lemma import_line_nonempty: "import_line a \<noteq> []"
  by (simp add: import_line_def)

lemma include_map_first_per_model:
  "filter (\<lambda>l. l \<noteq> []) (include_map seen as) = map import_line (first_per_model seen as)"
  by (induction as arbitrary: seen) (simp_all add: import_line_nonempty)

lemma instance_block_truthy:
  assumes "instance_block cfg a = Inr b"
  shows "block_truthy b"
  using assms
  by (auto simp: instance_block_def block_truthy_def split: if_splits sum.splits)

lemma instance_map_first_per_model:
  assumes "instance_map cfg seen as = Inr bs"
  shows "list_all2 (\<lambda>a b. instance_block cfg a = Inr b) (first_per_model seen as)
           (filter block_truthy bs)"
  using assms
proof (induction as arbitrary: seen bs)
  case Nil
  then show ?case by simp
next
  case (Cons a as)
  show ?case
  proof (cases "seen_model seen (model a)")
    case True
    then obtain bs' where "instance_map cfg seen as = Inr bs'" "bs = NoBlock # bs'"
      using Cons.prems by (auto split: sum.splits)
    then show ?thesis using True Cons.IH by (simp add: block_truthy_def)
  next
    case False
    then obtain b bs' where b: "instance_block cfg a = Inr b"
      and m: "instance_map cfg (model a # seen) as = Inr bs'" and e: "bs = b # bs'"
      using Cons.prems by (auto split: sum.splits)
    then show ?thesis using False Cons.IH[OF m] instance_block_truthy[OF b] by simp
  qed
qed

lemma first_per_model_models:
  "(m \<in> model ` set (first_per_model seen as)) = (m \<in> model ` set as \<and> \<not> seen_model seen m)"
proof (induction as arbitrary: seen)
  case Nil
  then show ?case by simp
next
  case (Cons a as)
  show ?case
  proof (cases "seen_model seen (model a)")
    case True
    then show ?thesis using Cons.IH[of seen] by auto
  next
    case False
    then show ?thesis using Cons.IH[of "model a # seen"] by (auto simp: seen_model_def)
  qed
qed

lemma first_per_model_count:
  "length (filter (\<lambda>a. model a = m) (first_per_model seen as)) =
     (if m \<in> model ` set as \<and> \<not> seen_model seen m then 1 else 0)"
proof (induction as arbitrary: seen)
  case Nil
  then show ?case by simp
next
  case (Cons a as)
  show ?case
  proof (cases "seen_model seen (model a)")
    case True
    then show ?thesis using Cons.IH[of seen] by auto
  next
    case False
    show ?thesis
    proof (cases "model a = m")
      case True
      then have "seen_model (model a # seen) m" by (simp add: seen_model_def)
      then have "length (filter (\<lambda>a. model a = m) (first_per_model (model a # seen) as)) = 0"
        using Cons.IH[of "model a # seen"] by simp
      then show ?thesis using False True by simp
    next
      case n: False
      then have "seen_model (model a # seen) m = seen_model seen m" by (auto simp: seen_model_def)
      then show ?thesis using False n Cons.IH[of "model a # seen"] by auto
    qed
  qed
qed

lemma one_member:
  assumes "x \<in> set xs" and "\<exists>a \<in> set (g x). P a"
  shows "1 \<le> length (filter P (concat (map g xs)))"
proof -
  have "\<exists>a \<in> set (concat (map g xs)). P a" using assms by auto
  then have "filter P (concat (map g xs)) \<noteq> []" by (simp add: filter_empty_conv)
  then show ?thesis by (cases "filter P (concat (map g xs))") simp_all
qed

lemma two_members:
  assumes "x \<in> set xs" and "y \<in> set xs" and "x \<noteq> y"
    and "\<exists>a \<in> set (g x). P a" and "\<exists>a \<in> set (g y). P a"
  shows "2 \<le> length (filter P (concat (map g xs)))"
  using assms(1,2)
proof (induction xs)
  case Nil
  then show ?case by simp
next
  case (Cons z zs)
  have one: "\<And>w. \<exists>a \<in> set (g w). P a \<Longrightarrow> 1 \<le> length (filter P (g w))"
    using one_member[of _ "[_]" g P] by simp
  consider (x) "z = x" | (y) "z = y" | (n) "z \<noteq> x" "z \<noteq> y" by blast
  then show ?case
  proof cases
    case x
    then have "y \<in> set zs" using Cons.prems assms(3) by auto
    then have "1 \<le> length (filter P (concat (map g zs)))" using one_member assms(5) by fast
    then show ?thesis using one[OF assms(4)] x by simp
  next
    case y
    then have "x \<in> set zs" using Cons.prems assms(3) by auto
    then have "1 \<le> length (filter P (concat (map g zs)))" using one_member assms(4) by fast
    then show ?thesis using one[OF assms(5)] y by simp
  next
    case n
    then show ?thesis using Cons by simp
  qed
qed

lemma generateTableDefinition_javascript:
  assumes "\<not> typescript cfg" and "generateTableDefinition cfg rx obj t rows = Inr f"
  shows "includeLines f = [] \<and> instanceBlocks f = []"
  using assms by (auto simp: generateTableDefinition_def split: sum.splits)

lemma generateTableDefinition_typescript:
  assumes "typescript cfg" and "obj t = Some as"
    and "generateTableDefinition cfg rx obj t rows = Inr f"
  shows "includeLines f = map import_line (first_per_model [] as)
    \<and> list_all2 (\<lambda>a b. instance_block cfg a = Inr b) (first_per_model [] as) (instanceBlocks f)"
proof -
  have g: "get_property obj t = Own as" using assms(2) by (simp add: get_property_def)
  from assms(3) obtain cds bs where "build_columns cfg rx rows = Inr cds"
    and m: "instance_map cfg [] as = Inr bs"
    and f: "instanceBlocks f = filter block_truthy bs"
      "includeLines f = filter (\<lambda>l. l \<noteq> []) (include_map [] as)"
    using assms(1) g by (auto simp: generateTableDefinition_def split: sum.splits)
  show ?thesis
    using f instance_map_first_per_model[OF m] by (simp add: include_map_first_per_model)
qed

text \<open>
  C4, as the code has it. Let two different rows of the foreign keys belong to table \<open>t\<close>,
  reference the same table \<open>u\<close> and have no pivot field. With TypeScript output, the entries of
  \<open>t\<close> hold the model of \<open>u\<close> at least twice, the import lines and the instance blocks of
  the file of \<open>t\<close> are those of the first entry of each model, and exactly one of them is
  for the model of \<open>u\<close>. With JavaScript output the file has no import line and no
  instance block.
\<close>

theorem repeated_association_one_block:
  assumes "generateAssociations ind fkeys Map.empty = Inr (codes, obj)"
    and "r1 \<in> set fkeys" and "r2 \<in> set fkeys" and "r1 \<noteq> r2"
    and "table_name r1 = t" and "table_name r2 = t"
    and "reference_table r1 = u" and "reference_table r2 = u"
    and "pivot_of r1 = None" and "pivot_of r2 = None"
    and "generateTableDefinition cfg rx obj t rows = Inr f"
  shows "if typescript cfg
    then (\<exists>as. obj t = Some as
           \<and> 2 \<le> length (filter (\<lambda>a. model a = toPascalCase u) as)
           \<and> includeLines f = map import_line (first_per_model [] as)
           \<and> list_all2 (\<lambda>a b. instance_block cfg a = Inr b) (first_per_model [] as)
                (instanceBlocks f)
           \<and> length (filter (\<lambda>a. model a = toPascalCase u) (first_per_model [] as)) = 1)
    else includeLines f = [] \<and> instanceBlocks f = []"
proof (cases "typescript cfg")
  case False
  then show ?thesis using generateTableDefinition_javascript[OF False assms(11)] by simp
next
  case True
  let ?as = "concat (map (registered_for t) fkeys)"
  let ?P = "\<lambda>a. model a = toPascalCase u"
  have e1: "\<exists>a \<in> set (registered_for t r1). ?P a"
    using assms(5,7,9) by (simp add: registered_for_def)
  have e2: "\<exists>a \<in> set (registered_for t r2). ?P a"
    using assms(6,8,10) by (simp add: registered_for_def)
  have two: "2 \<le> length (filter ?P ?as)"
    by (rule two_members[OF assms(2,3,4) e1 e2])
  have ne: "?as \<noteq> []"
  proof
    assume "?as = []"
    then have "filter ?P ?as = []" by (simp only: filter.simps)
    then show False using two by simp
  qed
  have o: "obj t = Some ?as"
    using generateAssociations_the_list[OF assms(1), of t] ne by (simp add: the_list_def)
  from e1 obtain a where "a \<in> set (registered_for t r1)" and "model a = toPascalCase u"
    by blast
  then have "a \<in> set ?as" using assms(2) by auto
  then have "toPascalCase u \<in> model ` set ?as"
    using \<open>model a = toPascalCase u\<close> by (metis imageI)
  moreover have "\<not> seen_model [] (toPascalCase u)"
    using toPascalCase_not_inherited[of u] by (simp add: seen_model_def inherited_def)
  ultimately have one: "length (filter ?P (first_per_model [] ?as)) = 1"
    by (simp add: first_per_model_count)
  show ?thesis
    using True o two one generateTableDefinition_typescript[OF True o assms(11)] by simp
qed


lemma toPascalCase_person: "toPascalCase ''person'' = ''Person''"
  by (simp add: toPascalCase_def toUpperCase_char_def lower_letters_def upper_letters_def)

lemma message_associations:
  "generateAssociations [CHR 0x09] [message_sender, message_recipient] Map.empty =
     Inr (map (relation_code [CHR 0x09]) [message_sender, message_recipient],
          [''message'' \<mapsto> [person_entry, person_entry]])"
  by (simp add: message_sender_def message_recipient_def example_fk_def register_row_def
      pivot_of_def push_association_def ensure_list_def get_property_def object_prototype_names_def
      toPascalCase_person person_entry_def)

lemma message_file_javascript:
  "generateTableDefinition example_config rejecting_engine
     [''message'' \<mapsto> [person_entry, person_entry]] ''message'' [] =
   Inr \<lparr>tableName = ''message'', ext = ''js'', className = ''Message'', columns = [],
        columnsCode = [], sequelizeImports = [], instanceBlocks = [], includeLines = []\<rparr>"
  by (simp add: generateTableDefinition_def example_config_def example_singularize_def
      ends_with_def toPascalCase_def toUpperCase_char_def lower_letters_def upper_letters_def
      is_letter_def)

lemma message_file_typescript:
  "generateTableDefinition (example_config\<lparr>typescript := True\<rparr>) rejecting_engine
     [''message'' \<mapsto> [person_entry, person_entry]] ''message'' [] =
   Inr \<lparr>tableName = ''message'', ext = ''ts'', className = ''Message'', columns = [],
        columnsCode = [],
        sequelizeImports = [''DataTypes'', ''DefineAttributes'', ''DefineOptions''],
        instanceBlocks = [LineBlock (CHR 0x09 # ''person: Person | null'')],
        includeLines = [''import { Person } from './person';'']\<rparr>"
  by (simp add: generateTableDefinition_def example_config_def example_singularize_def
      ends_with_def toPascalCase_def toUpperCase_char_def lower_letters_def upper_letters_def
      is_letter_def get_property_def person_entry_def seen_model_def object_prototype_names_def
      instance_block_def lower_first_def toLowerCase_char_def tab_def block_truthy_def
      import_line_def quote_def)

text \<open>
  C4 as the specification words it fails without TypeScript output: the two foreign keys of
  \<^verbatim>\<open>message\<close> to \<^verbatim>\<open>person\<close> are registered, and the file of \<^verbatim>\<open>message\<close> has no
  association block at all.
\<close>

theorem javascript_file_has_no_block:
  "\<not> typescript example_config
   \<and> generateAssociations [CHR 0x09] [message_sender, message_recipient] Map.empty =
       Inr (map (relation_code [CHR 0x09]) [message_sender, message_recipient],
            [''message'' \<mapsto> [person_entry, person_entry]])
   \<and> generateTableDefinition example_config rejecting_engine
       [''message'' \<mapsto> [person_entry, person_entry]] ''message'' [] =
       Inr \<lparr>tableName = ''message'', ext = ''js'', className = ''Message'', columns = [],
            columnsCode = [], sequelizeImports = [], instanceBlocks = [], includeLines = []\<rparr>"
  using message_associations message_file_javascript by (simp add: example_config_def)

text \<open>
  C4 at the table \<^verbatim>\<open>message\<close> with TypeScript output: two entries for \<^verbatim>\<open>Person\<close>, one
  import line and one instance line.
\<close>

theorem repeated_association_one_block_witness:
  "typescript (example_config\<lparr>typescript := True\<rparr>)
   \<and> generateAssociations [CHR 0x09] [message_sender, message_recipient] Map.empty =
       Inr (map (relation_code [CHR 0x09]) [message_sender, message_recipient],
            [''message'' \<mapsto> [person_entry, person_entry]])
   \<and> generateTableDefinition (example_config\<lparr>typescript := True\<rparr>) rejecting_engine
       [''message'' \<mapsto> [person_entry, person_entry]] ''message'' [] =
       Inr \<lparr>tableName = ''message'', ext = ''ts'', className = ''Message'', columns = [],
            columnsCode = [],
            sequelizeImports = [''DataTypes'', ''DefineAttributes'', ''DefineOptions''],
            instanceBlocks = [LineBlock (CHR 0x09 # ''person: Person | null'')],
            includeLines = [''import { Person } from './person';'']\<rparr>
   \<and> length (filter (\<lambda>a. model a = ''Person'') [person_entry, person_entry]) = 2
   \<and> length (filter (\<lambda>a. model a = ''Person'')
        (first_per_model [] [person_entry, person_entry])) = 1"
proof -
  have 1: "message_sender \<in> set [message_sender, message_recipient]" by simp
  have 2: "message_recipient \<in> set [message_sender, message_recipient]" by simp
  have 3: "message_sender \<noteq> message_recipient"
    by (simp add: message_sender_def message_recipient_def example_fk_def)
  have 4: "table_name message_sender = ''message''" "table_name message_recipient = ''message''"
    "reference_table message_sender = ''person''" "reference_table message_recipient = ''person''"
    "pivot_of message_sender = None" "pivot_of message_recipient = None"
    by (simp_all add: message_sender_def message_recipient_def example_fk_def pivot_of_def)
  show ?thesis
    using repeated_association_one_block [OF message_associations 1 2 3 4 message_file_typescript]
      message_associations message_file_typescript
    by (simp add: toPascalCase_person person_entry_def)
qed

section \<open>Properties of the run\<close>

lemma generateTableDefinition_tableName:
  assumes "generateTableDefinition cfg rx obj t rows = Inr f"
  shows "tableName f = t"
  using assms
  by (auto simp: generateTableDefinition_def split: sum.splits if_splits js_property.splits)

lemma generateDefinitions_prefix:
  assumes "generateDefinitions cfg rx obj cq ts = (fs, r)"
  shows "map tableName fs = take (length fs) ts
    \<and> (case r of
         None \<Rightarrow> length fs = length ts
       | Some e \<Rightarrow> length fs < length ts
           \<and> generateTableDefinition cfg rx obj (ts ! length fs) (cq (ts ! length fs)) = Inl e)"
  using assms
proof (induction ts arbitrary: fs r)
  case Nil
  then show ?case by simp
next
  case (Cons t ts)
  show ?case
  proof (cases "generateTableDefinition cfg rx obj t (cq t)")
    case (Inl e)
    then have "fs = []" "r = Some e" using Cons.prems by auto
    then show ?thesis using Inl by simp
  next
    case (Inr f)
    obtain fs' r' where g: "generateDefinitions cfg rx obj cq ts = (fs', r')"
      by (cases "generateDefinitions cfg rx obj cq ts")
    then have e: "fs = f # fs'" "r = r'" using Cons.prems Inr by simp_all
    show ?thesis
      using Cons.IH[OF g] e generateTableDefinition_tableName[OF Inr]
      by (auto split: option.splits)
  qed
qed

lemma allTablesQuery_sorted: "sorted (allTablesQuery view dbName schemaName)"
  by (simp add: allTablesQuery_def)

lemma allTablesQuery_set:
  "set (allTablesQuery view dbName schemaName) = {n. (dbName, schemaName, n) \<in> set view}"
  by (force simp: allTablesQuery_def)

lemma allTablesQuery_length:
  "length (allTablesQuery view dbName schemaName) =
     length (filter (\<lambda>(c, s, n). c = dbName \<and> s = schemaName) view)"
  by (simp add: allTablesQuery_def)

text \<open>
  C8, as the code has it. The tables of the run are those of the schema, each once, in
  ascending order of their names: the order of \<^verbatim>\<open>allTablesQuery\<close>, which ends in
  \<^verbatim>\<open>ORDER BY table_name\<close>. The files written are those of the first tables in that order,
  one file for each; a run that ends without an error has written the file of every table,
  and a run that an error ended has written the files of the tables before the failing one.
\<close>

theorem one_file_per_table_in_name_order:
  assumes "generate cfg rx view dbName schemaName fkeys columnQuery = (rel, fs, r)"
  shows "sorted (allTablesQuery view dbName schemaName)
    \<and> set (allTablesQuery view dbName schemaName) = {n. (dbName, schemaName, n) \<in> set view}
    \<and> length (allTablesQuery view dbName schemaName) =
        length (filter (\<lambda>(c, s, n). c = dbName \<and> s = schemaName) view)
    \<and> map tableName fs = take (length fs) (allTablesQuery view dbName schemaName)
    \<and> (r = None \<longrightarrow> map tableName fs = allTablesQuery view dbName schemaName)
    \<and> (\<forall>e. r = Some e \<and> rel \<noteq> None \<longrightarrow>
          length fs < length (allTablesQuery view dbName schemaName)
          \<and> (\<exists>codes obj.
                generateAssociations (indent cfg) fkeys Map.empty = Inr (codes, obj)
                \<and> generateTableDefinition cfg rx obj
                      (allTablesQuery view dbName schemaName ! length fs)
                      (columnQuery (allTablesQuery view dbName schemaName ! length fs)) = Inl e))"
proof (cases "generateAssociations (indent cfg) fkeys Map.empty")
  case (Inl e)
  then have "fs = []" "r = Some e" "rel = None" using assms by (simp_all add: generate_def)
  then show ?thesis
    by (simp add: allTablesQuery_sorted allTablesQuery_set allTablesQuery_length)
next
  case (Inr p)
  obtain codes obj where p: "p = (codes, obj)" by (cases p)
  have g: "generateDefinitions cfg rx obj columnQuery (allTablesQuery view dbName schemaName) =
      (fs, r)"
    using assms Inr p by (simp add: generate_def split: prod.splits)
  show ?thesis
    using generateDefinitions_prefix[OF g] Inr p
    by (cases r) (simp_all add: allTablesQuery_sorted allTablesQuery_set allTablesQuery_length)
qed

lemma example_tables: "allTablesQuery example_view ''blog'' ''public'' = [''author'', ''post'']"
  by code_simp


lemma example_table_file:
  "generateTableDefinition example_config rejecting_engine Map.empty t (example_columns t) =
     Inr \<lparr>tableName = t, ext = ''js'', className = example_singularize (toPascalCase t),
          columns =
            [\<lparr>name = ''id'', field = ''id'',
              typeData = \<lparr>dataType = ''INTEGER'', docType = ''number'', comment = None,
                          tsType = ''number''\<rparr>,
              typeComment = ''integer'', isPrimaryKey = True, allowNull = False,
              autoIncrement = False, defaultValue = DNull\<rparr>],
          columnsCode = column_code (\<lambda>i. []) [CHR 0x09]
            \<lparr>name = ''id'', field = ''id'',
              typeData = \<lparr>dataType = ''INTEGER'', docType = ''number'', comment = None,
                          tsType = ''number''\<rparr>,
              typeComment = ''integer'', isPrimaryKey = True, allowNull = False,
              autoIncrement = False, defaultValue = DNull\<rparr>,
          sequelizeImports = [], instanceBlocks = [], includeLines = []\<rparr>"
  by (simp add: generateTableDefinition_def example_config_def example_columns_def
      build_column_def bare_row_def getColumnType_integer resolve_default_def regexp_subject_def
      match_string_literal_def match_cast_def ends_with_def starts_with_def present_def
      comment_or_def quote_def)

lemma bigint_table_file:
  "generateTableDefinition example_config rejecting_engine Map.empty t (bigint_columns t) =
     Inl (UnhandledDataType ''bigint'')"
  by (simp add: generateTableDefinition_def example_config_def bigint_columns_def
      build_column_def bare_row_def getColumnType.simps)

lemma example_run:
  "generate example_config rejecting_engine example_view ''blog'' ''public'' [] example_columns =
     (Some [],
      [projr (generateTableDefinition example_config rejecting_engine Map.empty ''author''
         (example_columns ''author'')),
       projr (generateTableDefinition example_config rejecting_engine Map.empty ''post''
         (example_columns ''post''))],
      None)"
  by (simp add: generate_def example_tables example_table_file)

text \<open>
  C8 at a catalog that lists \<^verbatim>\<open>post\<close> before \<^verbatim>\<open>author\<close>: the run ends without an error
  and its files are those of \<^verbatim>\<open>author\<close> and \<^verbatim>\<open>post\<close>, in this order.
\<close>

theorem one_file_per_table_in_name_order_witness:
  "map (\<lambda>(c, s, n). n) example_view = [''post'', ''author'', ''entry'']
   \<and> snd (snd (generate example_config rejecting_engine example_view ''blog'' ''public'' []
        example_columns)) = None
   \<and> map tableName (fst (snd (generate example_config rejecting_engine example_view ''blog''
        ''public'' [] example_columns))) = [''author'', ''post'']"
  using one_file_per_table_in_name_order [OF example_run] example_run example_tables
  by (simp add: example_view_def)

text \<open>
  C8 as the specification words it fails twice. The catalog lists \<^verbatim>\<open>post\<close> before
  \<^verbatim>\<open>author\<close> and the files come in the alphabetical order of the names. And when the key
  columns are of type \<^verbatim>\<open>bigint\<close>, the two tables are discovered and the run ends at the
  first one, with no file.
\<close>

theorem name_order_and_abort_counterexample:
  "map (\<lambda>(c, s, n). n) example_view = [''post'', ''author'', ''entry'']
   \<and> allTablesQuery example_view ''blog'' ''public'' = [''author'', ''post'']
   \<and> map tableName (fst (snd (generate example_config rejecting_engine example_view ''blog''
        ''public'' [] example_columns))) = [''author'', ''post'']
   \<and> generate example_config rejecting_engine example_view ''blog'' ''public'' []
        bigint_columns = (Some [], [], Some (UnhandledDataType ''bigint''))"
  using example_run example_tables
  by (simp add: example_view_def example_table_file generate_def bigint_table_file)

end
